theory Spec2Isabelle
  imports Main "HOL-Library.Word"
begin

unbundle bit_operations_syntax

section \<open>Strings\<close>

text \<open>
  Go strings are byte sequences; they are modelled as \<open>string\<close>. The helpers below are the
  parts of package \<open>strings\<close> that the sources call.
\<close>

fun has_prefix :: "string \<Rightarrow> string \<Rightarrow> bool" where
  "has_prefix s [] = True"
| "has_prefix [] (p # ps) = False"
| "has_prefix (c # cs) (p # ps) = (c = p \<and> has_prefix cs ps)"

text \<open>\<open>strings.Contains(s, sub)\<close>.\<close>

fun strings_Contains :: "string \<Rightarrow> string \<Rightarrow> bool" where
  "strings_Contains [] sub = (sub = [])"
| "strings_Contains (c # cs) sub = (has_prefix (c # cs) sub \<or> strings_Contains cs sub)"

text \<open>\<open>strings.Join(elems, sep)\<close>.\<close>

fun strings_Join :: "string list \<Rightarrow> string \<Rightarrow> string" where
  "strings_Join [] sep = []"
| "strings_Join [x] sep = x"
| "strings_Join (x # y # ys) sep = x @ sep @ strings_Join (y # ys) sep"

text \<open>\<open>strings.Split(s, "\n")\<close>: the pieces between line feeds, the last one included.\<close>

fun split_lines :: "string \<Rightarrow> string list" where
  "split_lines [] = [[]]"
| "split_lines (c # cs) =
     (if c = CHR 0x0A then [] # split_lines cs
      else (case split_lines cs of [] \<Rightarrow> [[c]] | l # ls \<Rightarrow> (c # l) # ls))"

text \<open>The ASCII white space that \<open>strings.TrimSpace\<close> removes at both ends.\<close>

definition is_space :: "char \<Rightarrow> bool" where
  "is_space c = (c = CHR 0x09 \<or> c = CHR 0x0A \<or> c = CHR 0x0B \<or> c = CHR 0x0C
     \<or> c = CHR 0x0D \<or> c = CHR 0x20)"

definition strings_TrimSpace :: "string \<Rightarrow> string" where
  "strings_TrimSpace s = rev (dropWhile is_space (rev (dropWhile is_space s)))"

section \<open>The structured error model\<close>

text \<open>\<open>type ErrorCode string\<close> and the known codes.\<close>

type_synonym ErrorCode = string

definition ErrCodeInternal :: ErrorCode where "ErrCodeInternal = ''INTERNAL_ERROR''"
definition ErrCodeValidation :: ErrorCode where "ErrCodeValidation = ''VALIDATION_ERROR''"
definition ErrCodeUnauthorized :: ErrorCode where "ErrCodeUnauthorized = ''UNAUTHORIZED''"
definition ErrCodeNotFound :: ErrorCode where "ErrCodeNotFound = ''NOT_FOUND''"
definition ErrCodeBadRequest :: ErrorCode where "ErrCodeBadRequest = ''BAD_REQUEST''"

lemmas ErrCode_defs =
  ErrCodeInternal_def ErrCodeValidation_def ErrCodeUnauthorized_def ErrCodeNotFound_def
  ErrCodeBadRequest_def

text \<open>A \<open>context.Context\<close>, as the values it carries.\<close>

type_synonym ctx = "string \<rightharpoonup> string"

text \<open>\<open>ErrorContext\<close> and \<open>ErrorDetail\<close>. A nil slice and an empty slice are both \<open>[]\<close>.\<close>

record ErrorContext =
  Stack :: "string list"
  Time :: nat
  Trace :: string
  Metadata :: "string \<rightharpoonup> string"

record ErrorDetail =
  detail_Code :: ErrorCode
  detail_Message :: string
  detail_Field :: string
  detail_Context :: ErrorContext

text \<open>
  A Go \<open>error\<close> value is either an \<open>*AppError\<close> or a value of some other type, which has a
  type name (what \<open>%T\<close> prints), a message and possibly an error it wraps (\<open>Unwrap\<close>).
  \<open>AppError\<close> has no \<open>Unwrap\<close> method.
\<close>

datatype goerror =
    EApp AppError
  | EOther (etype: string) (emsg: string) (eunwrap: "goerror option")
and AppError =
    MkAppError (MainError: "goerror option") (Code: ErrorCode) (Message: string)
      (Details: "ErrorDetail list") (InternalLogs: "string list") (Context: ctx)
      (StatusCode: nat)

text \<open>\<open>getHTTPStatusForErrorCode\<close>.\<close>

definition getHTTPStatusForErrorCode :: "ErrorCode \<Rightarrow> nat" where
  "getHTTPStatusForErrorCode code =
     (if code = ErrCodeValidation \<or> code = ErrCodeBadRequest then 400
      else if code = ErrCodeUnauthorized then 401
      else if code = ErrCodeNotFound then 404
      else 500)"

text \<open>\<open>NewError\<close>; \<open>context.Background()\<close> carries no value.\<close>

definition NewError :: "ErrorCode \<Rightarrow> string \<Rightarrow> AppError" where
  "NewError code message =
     MkAppError None code message [] [] Map.empty (getHTTPStatusForErrorCode code)"

text \<open>The builder methods mutate the receiver and return it; here they return the new value.\<close>

definition WithError :: "AppError \<Rightarrow> goerror option \<Rightarrow> AppError" where
  "WithError e err =
     MkAppError err (Code e) (Message e) (Details e) (InternalLogs e) (Context e) (StatusCode e)"

definition WithContext :: "AppError \<Rightarrow> ctx \<Rightarrow> AppError" where
  "WithContext e c =
     MkAppError (MainError e) (Code e) (Message e) (Details e) (InternalLogs e) c (StatusCode e)"

definition set_Details :: "AppError \<Rightarrow> ErrorDetail list \<Rightarrow> AppError" where
  "set_Details e ds =
     MkAppError (MainError e) (Code e) (Message e) ds (InternalLogs e) (Context e) (StatusCode e)"

text \<open>
  The loop of \<open>WithDetail\<close> over the lines of the stack text: the trimmed lines that are
  not blank, in order.
\<close>

fun stack_lines :: "string list \<Rightarrow> string list" where
  "stack_lines [] = []"
| "stack_lines (line # rest) =
     (if strings_TrimSpace line \<noteq> [] then strings_TrimSpace line # stack_lines rest
      else stack_lines rest)"

text \<open>
  \<open>WithDetail\<close>. \<open>now\<close> is what \<open>time.Now()\<close> returns and \<open>trace\<close> the text of the
  goroutine's stack; \<open>runtime.Stack\<close> fills a buffer of 4096 bytes with it.
\<close>

definition WithDetail :: "nat \<Rightarrow> string \<Rightarrow> AppError \<Rightarrow> ErrorCode \<Rightarrow> string \<Rightarrow> AppError" where
  "WithDetail now trace e code message =
     (let detail = \<lparr>detail_Code = code, detail_Message = message, detail_Field = [],
            detail_Context = \<lparr>Stack = [], Time = now, Trace = [], Metadata = Map.empty\<rparr>\<rparr>;
          stack = stack_lines (split_lines (take 4096 trace));
          detail = detail\<lparr>detail_Context := (detail_Context detail)\<lparr>Stack := stack\<rparr>\<rparr>
      in set_Details e (Details e @ [detail]))"

text \<open>\<open>WithField\<close>.\<close>

definition WithField :: "nat \<Rightarrow> AppError \<Rightarrow> string \<Rightarrow> string \<Rightarrow> AppError" where
  "WithField now e field message =
     (let detail = \<lparr>detail_Code = ErrCodeValidation, detail_Message = message,
            detail_Field = field,
            detail_Context = \<lparr>Stack = [], Time = now, Trace = [], Metadata = Map.empty\<rparr>\<rparr>
      in set_Details e (Details e @ [detail]))"

text \<open>\<open>WithMetadata\<close>: the metadata of the last detail, when there is one.\<close>

definition WithMetadata :: "AppError \<Rightarrow> string \<Rightarrow> string \<Rightarrow> AppError" where
  "WithMetadata e key v =
     (if length (Details e) > 0 then
        (let lastDetail = last (Details e);
             c = detail_Context lastDetail
         in set_Details e (butlast (Details e) @
              [lastDetail\<lparr>detail_Context := c\<lparr>Metadata := (Metadata c)(key \<mapsto> v)\<rparr>\<rparr>]))
      else e)"

text \<open>\<open>AddInternalLog\<close>, with the formatted message.\<close>

definition AddInternalLog :: "AppError \<Rightarrow> string \<Rightarrow> AppError" where
  "AddInternalLog e msg =
     MkAppError (MainError e) (Code e) (Message e) (Details e) (InternalLogs e @ [msg])
       (Context e) (StatusCode e)"

text \<open>
  What the specification says \<open>WithField\<close> is: \<open>WithDetail\<close> with the validation code,
  followed by setting the field of the detail just added.
\<close>

definition set_last_Field :: "AppError \<Rightarrow> string \<Rightarrow> AppError" where
  "set_last_Field e field =
     (if Details e = [] then e
      else set_Details e (butlast (Details e) @ [(last (Details e))\<lparr>detail_Field := field\<rparr>]))"

definition WithField_spec :: "nat \<Rightarrow> string \<Rightarrow> AppError \<Rightarrow> string \<Rightarrow> string \<Rightarrow> AppError" where
  "WithField_spec now trace e field message =
     set_last_Field (WithDetail now trace e ErrCodeValidation message) field"

section \<open>Requests, response writers and the process state\<close>

text \<open>
  \<open>http.Header\<close> maps a key to its values. \<open>Get\<close> returns the first value, or the empty
  string when there is none; \<open>Set\<close> replaces the values by one. Keys are written as the
  sources write them (\<open>net/http\<close> canonicalises both sides alike).
\<close>

type_synonym header = "string \<rightharpoonup> string list"

definition Header_Get :: "header \<Rightarrow> string \<Rightarrow> string" where
  "Header_Get h key = (case h key of None \<Rightarrow> [] | Some [] \<Rightarrow> [] | Some (v # _) \<Rightarrow> v)"

definition Header_Set :: "header \<Rightarrow> string \<Rightarrow> string \<Rightarrow> header" where
  "Header_Set h key v = h(key \<mapsto> [v])"

text \<open>The fields of \<open>*http.Request\<close> that the sources read.\<close>

record request =
  Method :: string
  Path :: string
  ProtoMajor :: nat
  ReqHeader :: header
  RemoteAddr :: string
  Body :: string
  ReqContext :: ctx

text \<open>
  The \<open>http.ResponseWriter\<close> of the server (or a test recorder): the header map, what has
  been sent as status and headers (nothing before the first \<open>WriteHeader\<close> or \<open>Write\<close>),
  and the body bytes. Its writes do not fail.
\<close>

record recorder =
  rec_Header :: header
  rec_Sent :: "(nat \<times> header) option"
  rec_Body :: string

text \<open>
  The writers of the package wrap one another by embedding: \<open>ResponseWriter\<close> (status,
  size, committed) embeds an \<open>http.ResponseWriter\<close>, \<open>debugResponseWriter\<close> (request, buf)
  embeds a \<open>*ResponseWriter\<close>. A handler receives a writer and gives it back updated.
\<close>

datatype writer =
    Recorder recorder
  | ResponseWriter writer nat int bool
  | debugResponseWriter writer request string

text \<open>Values passed to the logger, and log entries (level, message, arguments).\<close>

datatype logval =
    LStr string
  | LNat nat
  | LInt int
  | LStrs "string list"
  | LDetails "ErrorDetail list"
  | LErr "goerror option"

datatype logentry = LogEntry string string "logval list"

text \<open>
  Pre-request and post-request functions see the context, the writer and the request.
\<close>

type_synonym PreRequestFunc = "ctx \<Rightarrow> writer \<Rightarrow> request \<Rightarrow> writer \<times> ctx \<times> goerror option"
type_synonym PostRequestFunc = "ctx \<Rightarrow> writer \<Rightarrow> request \<Rightarrow> nat \<Rightarrow> writer"

text \<open>
  The state that request handling reads and writes through pointers: the phases of the
  \<open>ServerConfig\<close>, the \<open>DebugConfig\<close>, what the logger received, the variables that user
  closures record into (\<open>order\<close>, as in the tests), the clock, and the shard counters of
  the request identifier generator.
\<close>

record env =
  PrePhase :: "PreRequestFunc list"
  PostPhase :: "PostRequestFunc list"
  enableDebug :: bool
  authKey :: string
  logs :: "logentry list"
  order :: "string list"
  clock :: nat
  counters :: "nat \<Rightarrow> 64 word"

type_synonym handler = "writer \<Rightarrow> request \<Rightarrow> env \<Rightarrow> writer \<times> env"
type_synonym Middleware = "handler \<Rightarrow> handler"

text \<open>The standard response envelope; \<open>Results\<close> is any JSON value, left out when nil.\<close>

datatype jvalue =
    JNull
  | JBool bool
  | JString string
  | JArray "jvalue list"
  | JObject "(string \<times> jvalue) list"

record ErrorInfo =
  info_Code :: ErrorCode
  info_Message :: string

record StandardResponse =
  OK :: bool
  resp_Message :: string
  Results :: "jvalue option"
  resp_Error :: "ErrorInfo option"

text \<open>
  What the sources take from libraries and from the operating system, as parameters:
  the JSON encoder (the bytes \<open>Encode\<close> writes) and the decoding of the toggle request's
  body, \<open>path.Join\<close> and \<open>filepath.Join\<close>, the dumps of \<open>httputil\<close>, the WebSocket
  upgrade test and the serving of an upgraded connection, \<open>os.Stat\<close> (does the path name
  a file), \<open>http.ServeFile\<close>, and the name of a function value.
\<close>

type_synonym WSHandleFunc = nat
type_synonym WSMiddlewareFunc = nat

record externals =
  json_Encode :: "StandardResponse \<Rightarrow> string"
  json_Decode_Enable :: "string \<Rightarrow> bool option"
  path_Join :: "string \<Rightarrow> string \<Rightarrow> string"
  filepath_Join :: "string \<Rightarrow> string \<Rightarrow> string"
  DumpRequest :: "request \<Rightarrow> goerror + string"
  DumpResponse :: "nat \<Rightarrow> header \<Rightarrow> string \<Rightarrow> request \<Rightarrow> goerror + string"
  IsWebSocketUpgrade :: "request \<Rightarrow> bool"
  ws_Serve :: "WSHandleFunc \<Rightarrow> WSMiddlewareFunc list \<Rightarrow> handler"
  stat_is_file :: "string \<Rightarrow> bool"
  http_ServeFile :: "string \<Rightarrow> handler"
  FuncName :: "handler \<Rightarrow> string"

text \<open>The logger appends to the log.\<close>

definition Log_Error :: "string \<Rightarrow> logval list \<Rightarrow> env \<Rightarrow> env" where
  "Log_Error msg args e = e\<lparr>logs := logs e @ [LogEntry ''ERROR'' msg args]\<rparr>"

definition Log_Debug :: "string \<Rightarrow> logval list \<Rightarrow> env \<Rightarrow> env" where
  "Log_Debug msg args e = e\<lparr>logs := logs e @ [LogEntry ''DEBUG'' msg args]\<rparr>"

text \<open>\<open>isDebugEnabled\<close>.\<close>

definition isDebugEnabled :: "env \<Rightarrow> bool" where
  "isDebugEnabled e = enableDebug e"

subsection \<open>Writer methods\<close>

text \<open>\<open>Header()\<close> is promoted through the embeddings to the innermost writer.\<close>

fun Header :: "writer \<Rightarrow> header" where
  "Header (Recorder r) = rec_Header r"
| "Header (ResponseWriter w s n c) = Header w"
| "Header (debugResponseWriter w r buf) = Header w"

fun Header_map :: "(header \<Rightarrow> header) \<Rightarrow> writer \<Rightarrow> writer" where
  "Header_map f (Recorder r) = Recorder (r\<lparr>rec_Header := f (rec_Header r)\<rparr>)"
| "Header_map f (ResponseWriter w s n c) = ResponseWriter (Header_map f w) s n c"
| "Header_map f (debugResponseWriter w r buf) = debugResponseWriter (Header_map f w) r buf"

text \<open>\<open>w.Header().Set(key, v)\<close>.\<close>

definition SetHeader :: "writer \<Rightarrow> string \<Rightarrow> string \<Rightarrow> writer" where
  "SetHeader w key v = Header_map (\<lambda>h. Header_Set h key v) w"

text \<open>
  \<open>WriteHeader\<close>. The server's writer sends status and headers once. \<open>ResponseWriter\<close>
  passes the first call on and ignores the later ones. \<open>debugResponseWriter\<close> calls the
  embedded method and, in debug mode, logs a dump of the response.
\<close>

fun WriteHeader :: "externals \<Rightarrow> writer \<Rightarrow> nat \<Rightarrow> env \<Rightarrow> writer \<times> env" where
  "WriteHeader X (Recorder r) status e =
     (case rec_Sent r of
        None \<Rightarrow> (Recorder (r\<lparr>rec_Sent := Some (status, rec_Header r)\<rparr>), e)
      | Some _ \<Rightarrow> (Recorder r, e))"
| "WriteHeader X (ResponseWriter w s n c) status e =
     (if \<not> c then
        (case WriteHeader X w status e of (w', e') \<Rightarrow> (ResponseWriter w' status n True, e'))
      else (ResponseWriter w s n c, e))"
| "WriteHeader X (debugResponseWriter w r buf) status e =
     (case WriteHeader X w status e of
        (w', e') \<Rightarrow>
          (if isDebugEnabled e' then
             (case DumpResponse X status (Header w') buf r of
                Inl err \<Rightarrow>
                  (debugResponseWriter w' r buf,
                   Log_Error ''failed to dump response'' [LStr ''error'', LErr (Some err)] e')
              | Inr respDump \<Rightarrow>
                  (debugResponseWriter w' r buf,
                   Log_Debug ''response dump'' [LStr ''dump'', LStr respDump] e'))
           else (debugResponseWriter w' r buf, e')))"

lemma size_WriteHeader [simp]: "size (fst (WriteHeader X w status e)) = size w"
  by (induction w arbitrary: status e) (simp_all add: split_beta split: option.splits sum.splits)

text \<open>
  \<open>Write\<close>, returning the writer, the number of bytes written and the state. The
  server's writer sends status 200 first when nothing was sent. \<open>ResponseWriter\<close> calls
  its own \<open>WriteHeader(200)\<close> when it is not committed, then writes to the embedded writer
  and adds to its size. \<open>debugResponseWriter\<close> keeps a copy of the bytes in debug mode.
\<close>

function Write :: "externals \<Rightarrow> writer \<Rightarrow> string \<Rightarrow> env \<Rightarrow> writer \<times> nat \<times> env" where
  "Write X (Recorder r) b e =
     (let r' = (case rec_Sent r of
                  None \<Rightarrow> r\<lparr>rec_Sent := Some (200, rec_Header r)\<rparr>
                | Some _ \<Rightarrow> r)
      in (Recorder (r'\<lparr>rec_Body := rec_Body r' @ b\<rparr>), length b, e))"
| "Write X (ResponseWriter w s n c) b e =
     (if \<not> c then
        (case Write X (fst (WriteHeader X w 200 e)) b (snd (WriteHeader X w 200 e)) of
           (w', k, e') \<Rightarrow> (ResponseWriter w' 200 (n + int k) True, k, e'))
      else
        (case Write X w b e of
           (w', k, e') \<Rightarrow> (ResponseWriter w' s (n + int k) c, k, e')))"
| "Write X (debugResponseWriter w r buf) b e =
     (let buf' = (if isDebugEnabled e then buf @ b else buf)
      in (case Write X w b e of (w', k, e') \<Rightarrow> (debugResponseWriter w' r buf', k, e')))"
  by pat_completeness auto
termination
  by (relation "measure (\<lambda>(X, w, b, e). size w)") auto

text \<open>The fields of the wrapper that \<open>wrapHandler\<close> builds, and the writer it wraps.\<close>

fun writer_status :: "writer \<Rightarrow> nat" where
  "writer_status (debugResponseWriter (ResponseWriter w s n c) r buf) = s"
| "writer_status (ResponseWriter w s n c) = s"
| "writer_status w = 200"

fun writer_size :: "writer \<Rightarrow> int" where
  "writer_size (debugResponseWriter (ResponseWriter w s n c) r buf) = n"
| "writer_size (ResponseWriter w s n c) = n"
| "writer_size w = 0"

fun wrapped_writer :: "writer \<Rightarrow> writer" where
  "wrapped_writer (debugResponseWriter (ResponseWriter w s n c) r buf) = w"
| "wrapped_writer w = w"

text \<open>
  What the client receives once the server has finished the response: the status and
  headers sent (status 200 and the current headers if the handler sent none), and the
  body.
\<close>

fun response_of :: "writer \<Rightarrow> nat \<times> header \<times> string" where
  "response_of (Recorder r) =
     (case rec_Sent r of
        None \<Rightarrow> (200, rec_Header r, rec_Body r)
      | Some (code, h) \<Rightarrow> (code, h, rec_Body r))"
| "response_of (ResponseWriter w s n c) = response_of w"
| "response_of (debugResponseWriter w r buf) = response_of w"


definition response_header :: "writer \<Rightarrow> header" where
  "response_header w = fst (snd (response_of w))"


text \<open>A recorder that nothing has been written to.\<close>

definition NewRecorder :: writer where
  "NewRecorder = Recorder \<lparr>rec_Header = Map.empty, rec_Sent = None, rec_Body = []\<rparr>"

subsection \<open>Responses\<close>

text \<open>\<open>RespondJSON\<close>. The encoder writes the encoded envelope in one \<open>Write\<close>.\<close>

definition RespondJSON ::
  "externals \<Rightarrow> writer \<Rightarrow> nat \<Rightarrow> string \<Rightarrow> jvalue option \<Rightarrow> env \<Rightarrow> writer \<times> env" where
  "RespondJSON X w status message data e =
     (let response = \<lparr>OK = (status \<ge> 200 \<and> status < 300), resp_Message = message,
            Results = data, resp_Error = None\<rparr>;
          w1 = SetHeader w ''Content-Type'' ''application/json''
      in (case WriteHeader X w1 status e of
            (w2, e2) \<Rightarrow>
              (case Write X w2 (json_Encode X response) e2 of (w3, k, e3) \<Rightarrow> (w3, e3))))"

text \<open>\<open>errors.As(err, &appErr)\<close>: the first \<open>*AppError\<close> on the chain of wrapped errors.\<close>

fun errors_As :: "goerror \<Rightarrow> AppError option" where
  "errors_As (EApp a) = Some a"
| "errors_As (EOther t m None) = None"
| "errors_As (EOther t m (Some inner)) = errors_As inner"

text \<open>\<open>Handler.Error\<close>.\<close>

function Handler_Error :: "externals \<Rightarrow> writer \<Rightarrow> goerror \<Rightarrow> env \<Rightarrow> writer \<times> env" where
  "Handler_Error X w err e =
     (case errors_As err of
        Some appErr \<Rightarrow>
          (let e1 = Log_Error ''request error''
                 [LStr ''code'', LStr (Code appErr),
                  LStr ''message'', LStr (Message appErr),
                  LStr ''details'', LDetails (Details appErr),
                  LStr ''internal_logs'', LStrs (InternalLogs appErr),
                  LStr ''original_error'', LErr (MainError appErr)] e;
               response = \<lparr>OK = False, resp_Message = Message appErr, Results = None,
                 resp_Error = Some \<lparr>info_Code = Code appErr, info_Message = Message appErr\<rparr>\<rparr>;
               w1 = SetHeader w ''Content-Type'' ''application/json''
           in (case WriteHeader X w1 (StatusCode appErr) e1 of
                 (w2, e2) \<Rightarrow>
                   (case Write X w2 (json_Encode X response) e2 of (w3, k, e3) \<Rightarrow> (w3, e3))))
      | None \<Rightarrow>
          (let defaultErr = NewError ErrCodeInternal ''An internal error occurred'';
               defaultErr = AddInternalLog (WithError defaultErr (Some err))
                 (''Unexpected error type: '' @ etype err)
           in Handler_Error X w (EApp defaultErr) e))"
  by pat_completeness auto
termination
  by (relation "measure (\<lambda>(X, w, err, e). case errors_As err of None \<Rightarrow> 1 | Some _ \<Rightarrow> 0)")
    auto

declare Handler_Error.simps [simp del]

text \<open>\<open>err.Error()\<close>.\<close>

fun error_string :: "goerror \<Rightarrow> string" where
  "error_string (EApp a) = Message a"
| "error_string (EOther t m u) = m"

text \<open>
  \<open>http.Error\<close> and \<open>http.NotFound\<close> of \<open>net/http\<close>: plain text headers, the status, and
  the message on a line.
\<close>

definition http_Error :: "externals \<Rightarrow> writer \<Rightarrow> string \<Rightarrow> nat \<Rightarrow> env \<Rightarrow> writer \<times> env" where
  "http_Error X w msg code e =
     (let w1 = Header_map (\<lambda>h. h(''Content-Length'' := None)) w;
          w2 = SetHeader w1 ''Content-Type'' ''text/plain; charset=utf-8'';
          w3 = SetHeader w2 ''X-Content-Type-Options'' ''nosniff''
      in (case WriteHeader X w3 code e of
            (w4, e4) \<Rightarrow>
              (case Write X w4 (msg @ [CHR 0x0A]) e4 of (w5, k, e5) \<Rightarrow> (w5, e5))))"

definition http_NotFound :: "externals \<Rightarrow> handler" where
  "http_NotFound X = (\<lambda>w r e. http_Error X w ''404 page not found'' 404 e)"

section \<open>The dispatcher\<close>

text \<open>HTTP methods.\<close>

definition MethodGet :: string where "MethodGet = ''GET''"
definition MethodPost :: string where "MethodPost = ''POST''"
definition MethodPut :: string where "MethodPut = ''PUT''"
definition MethodDelete :: string where "MethodDelete = ''DELETE''"
definition MethodPatch :: string where "MethodPatch = ''PATCH''"

lemmas Method_defs = MethodGet_def MethodPost_def MethodPut_def MethodDelete_def MethodPatch_def

record RouteConfig =
  Methods :: "string list"
  route_Handler :: handler

record fileServerConfig =
  serveSPA :: bool
  indexFile :: string
  distPath :: string

text \<open>
  \<open>WebSocketHandler\<close>: its routes (a Go map; the list order stands for the order in
  which the map is iterated) and its middleware.
\<close>

record WebSocketHandler =
  ws_routes :: "(string \<times> WSHandleFunc) list"
  ws_middleware :: "WSMiddlewareFunc list"

text \<open>
  The two implementations of the \<open>ProtocolHandler\<close> interface. The entries of
  \<open>Handler.protocols\<close> point at the handler's own gRPC server and WebSocket handler.
\<close>

datatype ProtocolHandler = PH_GRPC | PH_WebSocket

text \<open>
  \<open>Handler\<close>. \<open>fileServer\<close> and \<open>staticHandler\<close> are set together by
  \<open>RegisterFileServer\<close>; they are one optional pair here. The configuration and the debug
  flag, which the closures reach through the handler pointer, are in \<open>env\<close>.
\<close>

record Handler =
  routes :: "string \<rightharpoonup> RouteConfig"
  middleware :: "Middleware list"
  routeOrder :: "string list"
  fileServer :: "(fileServerConfig \<times> handler) option"
  protocols :: "ProtocolHandler list"
  grpcServer :: handler
  wsHandler :: WebSocketHandler

record RouteInfo =
  Pattern :: string
  info_Methods :: "string list"
  info_Handler :: string

text \<open>
  \<open>GetRegisteredRoutes\<close>. A pattern of \<open>routeOrder\<close> that is not in the map would read
  the zero \<open>RouteConfig\<close>, whose function has no name.
\<close>

definition GetRegisteredRoutes :: "externals \<Rightarrow> Handler \<Rightarrow> RouteInfo list" where
  "GetRegisteredRoutes X h =
     map (\<lambda>pattern.
            (case routes h pattern of
               Some route \<Rightarrow> \<lparr>Pattern = pattern, info_Methods = Methods route,
                 info_Handler = FuncName X (route_Handler route)\<rparr>
             | None \<Rightarrow> \<lparr>Pattern = pattern, info_Methods = [], info_Handler = []\<rparr>))
         (routeOrder h)
     @ map (\<lambda>(pattern, f). \<lparr>Pattern = pattern, info_Methods = [''GET''],
              info_Handler = ''WebSocket''\<rparr>)
         (ws_routes (wsHandler h))
     @ (case fileServer h of
          Some (fs, sh) \<Rightarrow> [\<lparr>Pattern = ''/*'', info_Methods = [''GET''],
            info_Handler = ''FileServer('' @ indexFile fs @ '')''\<rparr>]
        | None \<Rightarrow> [])"

subsection \<open>Protocol handlers\<close>

text \<open>\<open>GRPCHandler.DetectProtocol\<close>.\<close>

definition GRPC_DetectProtocol :: "request \<Rightarrow> bool" where
  "GRPC_DetectProtocol r =
     (ProtoMajor r = 2 \<and>
      strings_Contains (Header_Get (ReqHeader r) ''Content-Type'') ''application/grpc'')"

text \<open>
  \<open>WebSocketHandler.Handle\<close>: 404 for a path without a route; otherwise the connection
  is upgraded and served.
\<close>

definition WebSocket_Handle :: "externals \<Rightarrow> WebSocketHandler \<Rightarrow> handler" where
  "WebSocket_Handle X ws = (\<lambda>w r e.
     (case map_of (ws_routes ws) (Path r) of
        None \<Rightarrow> http_Error X w ''WebSocket route not found'' 404 e
      | Some f \<Rightarrow> ws_Serve X f (ws_middleware ws) w r e))"

definition DetectProtocol :: "externals \<Rightarrow> ProtocolHandler \<Rightarrow> request \<Rightarrow> bool" where
  "DetectProtocol X ph r =
     (case ph of PH_GRPC \<Rightarrow> GRPC_DetectProtocol r | PH_WebSocket \<Rightarrow> IsWebSocketUpgrade X r)"

definition Handle :: "externals \<Rightarrow> Handler \<Rightarrow> ProtocolHandler \<Rightarrow> handler" where
  "Handle X h ph =
     (case ph of PH_GRPC \<Rightarrow> grpcServer h | PH_WebSocket \<Rightarrow> WebSocket_Handle X (wsHandler h))"

subsection \<open>Routes\<close>

text \<open>\<open>isMethodAllowed\<close>.\<close>

fun isMethodAllowed :: "string \<Rightarrow> string list \<Rightarrow> bool" where
  "isMethodAllowed method [] = False"
| "isMethodAllowed method (m # ms) = (if method = m then True else isMethodAllowed method ms)"

text \<open>\<open>handleMethodNotAllowed\<close>; the encoder writes the keys of a map in sorted order.\<close>

definition handleMethodNotAllowed ::
  "externals \<Rightarrow> writer \<Rightarrow> request \<Rightarrow> string list \<Rightarrow> env \<Rightarrow> writer \<times> env" where
  "handleMethodNotAllowed X w r allowedMethods e =
     RespondJSON X (SetHeader w ''Allow'' (strings_Join allowedMethods '', ''))
       405 ''Method not allowed''
       (Some (JObject [(''allowed_methods'', JArray (map JString allowedMethods)),
                       (''current_method'', JString (Method r))])) e"

text \<open>The loops of \<open>wrapHandler\<close> over the pre-request and post-request functions.\<close>

fun run_PrePhase ::
  "PreRequestFunc list \<Rightarrow> ctx \<Rightarrow> writer \<Rightarrow> request \<Rightarrow> writer \<times> ctx \<times> goerror option" where
  "run_PrePhase [] c rw r = (rw, c, None)"
| "run_PrePhase (pre # rest) c rw r =
     (case pre c rw r of
        (rw', c', Some err) \<Rightarrow> (rw', c', Some err)
      | (rw', c', None) \<Rightarrow> run_PrePhase rest c' rw' r)"

fun run_PostPhase ::
  "PostRequestFunc list \<Rightarrow> ctx \<Rightarrow> writer \<Rightarrow> request \<Rightarrow> nat \<Rightarrow> writer" where
  "run_PostPhase [] c rw r d = rw"
| "run_PostPhase (post # rest) c rw r d = run_PostPhase rest c (post c rw r d) r d"

text \<open>\<open>wrapHandler\<close>.\<close>

definition wrapHandler :: "externals \<Rightarrow> handler \<Rightarrow> handler" where
  "wrapHandler X handler = (\<lambda>w r e.
     (let start = clock e;
          c = ReqContext r;
          e1 = (if isDebugEnabled e then
                  (case DumpRequest X r of
                     Inl err \<Rightarrow> Log_Error ''failed to dump request''
                       [LStr ''error'', LErr (Some err)] e
                   | Inr reqDump \<Rightarrow> Log_Debug ''request dump''
                       [LStr ''dump'', LStr reqDump] e)
                else e);
          rw = debugResponseWriter (ResponseWriter w 200 0 False) r []
      in (case run_PrePhase (PrePhase e1) c rw r of
            (rw1, c1, Some err) \<Rightarrow>
              (let e2 = Log_Error ''pre-request middleware error''
                     [LStr ''error'', LStr (error_string err),
                      LStr ''middleware'', LStr ''ags.PreRequestFunc''] e1
               in (case Handler_Error X rw1 err e2 of
                     (rw2, e3) \<Rightarrow> (wrapped_writer rw2, e3)))
          | (rw1, c1, None) \<Rightarrow>
              (case handler rw1 (r\<lparr>ReqContext := c1\<rparr>) e1 of
                 (rw2, e2) \<Rightarrow>
                   (let duration = clock e2 - start;
                        e3 = Log_Debug ''request completed''
                          [LStr ''status'', LNat (writer_status rw2),
                           LStr ''duration_ms'', LNat duration,
                           LStr ''size'', LInt (writer_size rw2)] e2
                    in (wrapped_writer (run_PostPhase (PostPhase e3) c1 rw2 r duration),
                        e3))))))"

text \<open>\<open>Handler.Route\<close> and the helpers for the methods.\<close>

definition Route :: "externals \<Rightarrow> Handler \<Rightarrow> string \<Rightarrow> handler \<Rightarrow> string list \<Rightarrow> Handler" where
  "Route X h pattern handler methods =
     (let methods = (if length methods = 0 then [MethodGet] else methods);
          wrapped = wrapHandler X handler
      in h\<lparr>routes := (routes h)(pattern \<mapsto> \<lparr>Methods = methods, route_Handler = wrapped\<rparr>),
           routeOrder := routeOrder h @ [pattern]\<rparr>)"

definition Handler_Get :: "externals \<Rightarrow> Handler \<Rightarrow> string \<Rightarrow> handler \<Rightarrow> Handler" where
  "Handler_Get X h pattern handler = Route X h pattern handler [MethodGet]"

definition Handler_Post :: "externals \<Rightarrow> Handler \<Rightarrow> string \<Rightarrow> handler \<Rightarrow> Handler" where
  "Handler_Post X h pattern handler = Route X h pattern handler [MethodPost]"

text \<open>\<open>AddPreRequestFunc\<close>.\<close>

definition AddPreRequestFunc :: "PreRequestFunc \<Rightarrow> env \<Rightarrow> env" where
  "AddPreRequestFunc fn e = e\<lparr>PrePhase := PrePhase e @ [fn]\<rparr>"

subsection \<open>Middleware and groups\<close>

text \<open>
  The loop \<open>for i := len(mw) - 1; i >= 0; i-- { handler = mw[i](handler) }\<close> of
  \<open>ServeHTTP\<close> and of \<open>Group.Route\<close>: the list is walked from its last element.
\<close>

definition wrap_reverse :: "Middleware list \<Rightarrow> handler \<Rightarrow> handler" where
  "wrap_reverse mws handler = fold (\<lambda>m acc. m acc) (rev mws) handler"

text \<open>\<open>Handler.Use\<close>.\<close>

definition Use :: "Handler \<Rightarrow> Middleware list \<Rightarrow> Handler" where
  "Use h mws = h\<lparr>middleware := middleware h @ mws\<rparr>"

record Group =
  prefix :: string
  group_middleware :: "Middleware list"

text \<open>\<open>Handler.Group\<close>, \<open>Group.Use\<close>, \<open>Group.Group\<close> and \<open>Group.Route\<close>.\<close>

definition Handler_Group :: "string \<Rightarrow> Middleware list \<Rightarrow> Group" where
  "Handler_Group pre mw = \<lparr>prefix = pre, group_middleware = [] @ mw\<rparr>"

definition Group_Use :: "Group \<Rightarrow> Middleware list \<Rightarrow> Group" where
  "Group_Use g mws = g\<lparr>group_middleware := group_middleware g @ mws\<rparr>"

definition Group_Group :: "externals \<Rightarrow> Group \<Rightarrow> string \<Rightarrow> Group" where
  "Group_Group X g pre =
     \<lparr>prefix = path_Join X (prefix g) pre, group_middleware = [] @ group_middleware g\<rparr>"

definition Group_Route ::
  "externals \<Rightarrow> Handler \<Rightarrow> Group \<Rightarrow> string \<Rightarrow> handler \<Rightarrow> string list \<Rightarrow> Handler" where
  "Group_Route X h g pattern handler methods =
     (let fullPath = path_Join X (prefix g) pattern;
          wrapped = wrap_reverse (group_middleware g) handler
      in Route X h fullPath wrapped methods)"

definition Group_Get :: "externals \<Rightarrow> Handler \<Rightarrow> Group \<Rightarrow> string \<Rightarrow> handler \<Rightarrow> Handler" where
  "Group_Get X h g pattern handler = Group_Route X h g pattern handler [MethodGet]"

subsection \<open>ServeHTTP\<close>

text \<open>The loop over \<open>h.protocols\<close>: the first handler whose detector accepts the request.\<close>

fun find_protocol ::
  "externals \<Rightarrow> ProtocolHandler list \<Rightarrow> request \<Rightarrow> ProtocolHandler option" where
  "find_protocol X [] r = None"
| "find_protocol X (ph # rest) r =
     (if DetectProtocol X ph r then Some ph else find_protocol X rest r)"

text \<open>The function literal of \<open>ServeHTTP\<close> that the global middleware wraps.\<close>

definition inner_handler :: "externals \<Rightarrow> Handler \<Rightarrow> handler" where
  "inner_handler X h = (\<lambda>w r e.
     (case find_protocol X (protocols h) r of
        Some ph \<Rightarrow> Handle X h ph w r e
      | None \<Rightarrow>
          (case routes h (Path r) of
             Some route \<Rightarrow>
               (if \<not> isMethodAllowed (Method r) (Methods route)
                then handleMethodNotAllowed X w r (Methods route) e
                else route_Handler route w r e)
           | None \<Rightarrow>
               (case fileServer h of
                  Some (fs, staticHandler) \<Rightarrow>
                    (if serveSPA fs then
                       (if stat_is_file X (filepath_Join X (distPath fs) (Path r))
                        then staticHandler w r e
                        else http_ServeFile X (filepath_Join X (distPath fs) (indexFile fs))
                               w r e)
                     else staticHandler w r e)
                | None \<Rightarrow> http_NotFound X w r e))))"

definition ServeHTTP :: "externals \<Rightarrow> Handler \<Rightarrow> handler" where
  "ServeHTTP X h = wrap_reverse (middleware h) (inner_handler X h)"

subsection \<open>The debug endpoint and NewHandler\<close>

text \<open>\<open>handleDebugToggle\<close>.\<close>

definition handleDebugToggle :: "externals \<Rightarrow> handler" where
  "handleDebugToggle X = (\<lambda>w r e.
     (case json_Decode_Enable X (Body r) of
        None \<Rightarrow> Handler_Error X w (EApp (NewError ErrCodeBadRequest ''Invalid request body'')) e
      | Some enable \<Rightarrow>
          RespondJSON X w 200 ''Debug mode updated''
            (Some (JObject [(''debug_enabled'', JBool enable)]))
            (e\<lparr>enableDebug := enable\<rparr>)))"

text \<open>\<open>authenticateDebug\<close>.\<close>

definition authenticateDebug :: "externals \<Rightarrow> handler \<Rightarrow> handler" where
  "authenticateDebug X next = (\<lambda>w r e.
     (let authHeader = Header_Get (ReqHeader r) ''X-Debug-Key''
      in if authKey e = [] then
           Handler_Error X w
             (EApp (NewError ErrCodeUnauthorized ''Debug authentication not configured'')) e
         else if authHeader = [] then
           Handler_Error X w (EApp (NewError ErrCodeUnauthorized ''Debug key required'')) e
         else if authHeader \<noteq> authKey e then
           Handler_Error X w (EApp (NewError ErrCodeUnauthorized ''Invalid debug key'')) e
         else next w r e))"

text \<open>The health check and the pre-request function that \<open>NewHandler\<close> installs.\<close>

definition health_handler :: "externals \<Rightarrow> handler" where
  "health_handler X = (\<lambda>w r e.
     (case WriteHeader X w 200 e of
        (w1, e1) \<Rightarrow> (case Write X w1 ''OK'' e1 of (w2, k, e2) \<Rightarrow> (w2, e2))))"

definition default_PreRequestFunc :: PreRequestFunc where
  "default_PreRequestFunc = (\<lambda>c w r. (SetHeader w ''X-PreReq'' ''valid'', c, None))"

record ServerConfig =
  cfg_PrePhase :: "PreRequestFunc list"
  cfg_PostPhase :: "PostRequestFunc list"

text \<open>
  \<open>NewHandler\<close>. \<open>grpc\<close> is the \<open>ServeHTTP\<close> of the gRPC server that \<open>NewGRPCHandler\<close>
  creates, \<open>key\<close> the value of the environment variable \<open>DEBUG_AUTH_KEY\<close>, and \<open>e\<close> the
  state of the process before the call.
\<close>

definition NewHandler ::
  "externals \<Rightarrow> handler \<Rightarrow> ServerConfig \<Rightarrow> string \<Rightarrow> env \<Rightarrow> Handler \<times> env" where
  "NewHandler X grpc cfg key e =
     (let e1 = e\<lparr>PrePhase := cfg_PrePhase cfg, PostPhase := cfg_PostPhase cfg,
                 enableDebug := False, authKey := key\<rparr>;
          h = \<lparr>routes = Map.empty, middleware = [], routeOrder = [], fileServer = None,
               protocols = [], grpcServer = grpc,
               wsHandler = \<lparr>ws_routes = [], ws_middleware = []\<rparr>\<rparr>;
          h = Handler_Post X h ''/_/debug/toggle'' (authenticateDebug X (handleDebugToggle X));
          h = Handler_Get X h ''/_/health'' (health_handler X);
          h = h\<lparr>protocols := protocols h @ [PH_GRPC]\<rparr>;
          h = h\<lparr>protocols := protocols h @ [PH_WebSocket]\<rparr>;
          e2 = AddPreRequestFunc default_PreRequestFunc e1
      in (h, e2))"

section \<open>The request identifier middleware\<close>

text \<open>FNV-1a on 64 bits (\<open>hash/fnv\<close>), over the bytes of the key.\<close>

definition fnv64a :: "string \<Rightarrow> 64 word" where
  "fnv64a key =
     fold (\<lambda>c h. (h XOR word_of_nat (of_char c)) * 1099511628211) key 14695981039346656037"

text \<open>\<open>shardCounter\<close>: the index of the shard, with 64 shards.\<close>

definition shardCounter :: "string \<Rightarrow> nat" where
  "shardCounter key = unat (fnv64a key mod 64)"

text \<open>\<open>nextRequestID\<close>: the shard's counter after adding one (\<open>uint64\<close> wraps).\<close>

definition nextRequestID :: "string \<Rightarrow> env \<Rightarrow> 64 word \<times> env" where
  "nextRequestID key e =
     (let i = shardCounter key; n = counters e i + 1
      in (n, e\<lparr>counters := (counters e)(i := n)\<rparr>))"

text \<open>
  The verb \<open>%06d\<close>: the decimal digits (taken from the digit string, as \<open>fmt\<close> does),
  with zeros in front up to six characters.
\<close>

function decimal :: "nat \<Rightarrow> string" where
  "decimal n =
     (if n < 10 then [''0123456789'' ! n]
      else decimal (n div 10) @ [''0123456789'' ! (n mod 10)])"
  by pat_completeness auto
termination
  by (relation "measure id") auto

declare decimal.simps [simp del]

definition fmt_06d :: "nat \<Rightarrow> string" where
  "fmt_06d n = replicate (6 - length (decimal n)) (CHR ''0'') @ decimal n"

definition RequestIDHeader :: string where "RequestIDHeader = ''X-ReqId''"
definition RequestIDKey :: string where "RequestIDKey = ''req_id''"

text \<open>
  \<open>RequestID\<close>. \<open>pfx\<close> is the package variable \<open>prefix\<close> that \<open>init\<close> computes from the
  host name and random bytes.
\<close>

definition RequestID :: "string \<Rightarrow> handler \<Rightarrow> handler" where
  "RequestID pfx next = (\<lambda>w r e.
     (let c = ReqContext r
      in (case nextRequestID (RemoteAddr r) e of
            (n, e1) \<Rightarrow>
              (let newID = pfx @ ''-'' @ fmt_06d (unat n);
                   existingRequestID = Header_Get (ReqHeader r) RequestIDHeader;
                   newID = (if existingRequestID \<noteq> []
                            then existingRequestID @ ''/'' @ newID else newID);
                   r1 = r\<lparr>ReqHeader := Header_Set (ReqHeader r) RequestIDHeader newID\<rparr>;
                   c = c(RequestIDKey \<mapsto> newID)
               in next w (r1\<lparr>ReqContext := c\<rparr>) e1))))"

text \<open>\<open>GetReqID\<close>.\<close>

definition GetReqID :: "ctx \<Rightarrow> string" where
  "GetReqID c = (case c RequestIDKey of Some reqID \<Rightarrow> reqID | None \<Rightarrow> [])"

section \<open>Registration sequences and concrete runs\<close>

text \<open>A sequence of calls of \<open>Handler.Route\<close>, in order.\<close>

definition register_all ::
  "externals \<Rightarrow> Handler \<Rightarrow> (string \<times> handler \<times> string list) list \<Rightarrow> Handler" where
  "register_all X h regs =
     fold (\<lambda>(pattern, handler, methods) h. Route X h pattern handler methods) regs h"

text \<open>The envelope that \<open>Handler.Error\<close> encodes for an \<open>AppError\<close>.\<close>

definition error_response :: "AppError \<Rightarrow> StandardResponse" where
  "error_response a = \<lparr>OK = False, resp_Message = Message a, Results = None,
     resp_Error = Some \<lparr>info_Code = Code a, info_Message = Message a\<rparr>\<rparr>"

text \<open>
  To run the model on concrete requests: the text \<open>encoding/json\<close> produces for values
  whose strings need no escaping, the decoding of two request bodies, and simple
  stand-ins for the other library functions. \<open>path.Join\<close> is concatenation on segments of
  the form \<open>/name\<close>.
\<close>

fun json_text :: "jvalue \<Rightarrow> string" where
  \<open>json_text JNull = ''null''\<close>
| \<open>json_text (JBool b) = (if b then ''true'' else ''false'')\<close>
| \<open>json_text (JString s) = ''"'' @ s @ ''"''\<close>
| \<open>json_text (JArray vs) = ''['' @ strings_Join (map json_text vs) '','' @ '']''\<close>
| \<open>json_text (JObject kvs) =
     ''{'' @ strings_Join (map (\<lambda>(k, v). ''"'' @ k @ ''":'' @ json_text v) kvs) '','' @ ''}''\<close>

definition plain_json_Encode :: "StandardResponse \<Rightarrow> string" where
  \<open>plain_json_Encode resp =
     ''{"ok":'' @ (if OK resp then ''true'' else ''false'')
     @ '',"message":"'' @ resp_Message resp @ ''"''
     @ (case Results resp of None \<Rightarrow> [] | Some v \<Rightarrow> '',"results":'' @ json_text v)
     @ (case resp_Error resp of
          None \<Rightarrow> []
        | Some i \<Rightarrow> '',"error":{"code":"'' @ info_Code i @ ''","message":"''
            @ info_Message i @ ''"}'')
     @ ''}'' @ [CHR 0x0A]\<close>

definition test_externals :: externals where
  \<open>test_externals =
     \<lparr>json_Encode = plain_json_Encode,
      json_Decode_Enable = (\<lambda>b. if b = ''{"enable":true}'' then Some True
                                else if b = ''{"enable":false}'' then Some False
                                else None),
      path_Join = (\<lambda>a b. a @ b),
      filepath_Join = (\<lambda>a b. a @ b),
      DumpRequest = (\<lambda>r. Inr (Method r @ '' '' @ Path r)),
      DumpResponse = (\<lambda>status h buf r. Inr buf),
      IsWebSocketUpgrade = (\<lambda>r. Header_Get (ReqHeader r) ''Upgrade'' = ''websocket''),
      ws_Serve = (\<lambda>f ms w r e. (w, e)),
      stat_is_file = (\<lambda>p. False),
      http_ServeFile = (\<lambda>p w r e. (w, e)),
      FuncName = (\<lambda>f. ''wrapHandler.func1'')\<rparr>\<close>

definition empty_env :: env where
  "empty_env = \<lparr>PrePhase = [], PostPhase = [], enableDebug = False, authKey = [], logs = [],
     order = [], clock = 0, counters = (\<lambda>i. 0)\<rparr>"

definition empty_config :: ServerConfig where
  "empty_config = \<lparr>cfg_PrePhase = [], cfg_PostPhase = []\<rparr>"

text \<open>A request without headers or body, and handlers and middleware that record a name.\<close>

definition plain_request :: "string \<Rightarrow> string \<Rightarrow> request" where
  "plain_request m p = \<lparr>Method = m, Path = p, ProtoMajor = 1, ReqHeader = Map.empty,
     RemoteAddr = ''10.0.0.1:4000'', Body = [], ReqContext = Map.empty\<rparr>"

definition record_handler :: "string \<Rightarrow> handler" where
  "record_handler name = (\<lambda>w r e. (w, e\<lparr>order := order e @ [name]\<rparr>))"

definition record_middleware :: "string \<Rightarrow> Middleware" where
  "record_middleware name = (\<lambda>next w r e. next w r (e\<lparr>order := order e @ [name]\<rparr>))"

text \<open>A request that the gRPC detector accepts, and a handler with one more route.\<close>

definition grpc_request :: request where
  "grpc_request = (plain_request ''POST'' ''/x'')
     \<lparr>ProtoMajor := 2, ReqHeader := [''Content-Type'' \<mapsto> [''application/grpc+proto'']]\<rparr>"

definition one_route_handler :: "string list \<Rightarrow> Handler" where
  "one_route_handler ms =
     register_all test_externals
       (fst (NewHandler test_externals (record_handler ''grpc'') empty_config ''secret'' empty_env))
       [(''/x'', record_handler ''route'', ms)]"

text \<open>The number that a string of decimal digits denotes.\<close>

definition decimal_value :: "string \<Rightarrow> nat" where
  "decimal_value s = foldl (\<lambda>acc c. 10 * acc + (of_char c - 48)) 0 s"

text \<open>A handler that records the request identifier it sees, in the header and in the context.\<close>

definition reqid_probe :: handler where
  "reqid_probe = (\<lambda>w r e.
     (w, e\<lparr>order := [Header_Get (ReqHeader r) RequestIDHeader, GetReqID (ReqContext r)]\<rparr>))"

text \<open>A handler on which the pattern \<open>/x\<close> is registered twice.\<close>

definition twice_registered :: Handler where
  "twice_registered =
     register_all test_externals
       (fst (NewHandler test_externals (record_handler ''grpc'') empty_config ''secret'' empty_env))
       [(''/x'', record_handler ''first'', [''POST'']), (''/x'', record_handler ''second'', [])]"

text \<open>
  The two ends of \<open>wrapHandler\<close>, named for the statements below: the state after the
  request dump, and what follows the call of the handler (the log entry, the
  post-request functions, and the writer given back to the caller).
\<close>

definition request_dump_logged :: "externals \<Rightarrow> request \<Rightarrow> env \<Rightarrow> env" where
  "request_dump_logged X r e =
     (if isDebugEnabled e then
        (case DumpRequest X r of
           Inl err \<Rightarrow> Log_Error ''failed to dump request'' [LStr ''error'', LErr (Some err)] e
         | Inr reqDump \<Rightarrow> Log_Debug ''request dump'' [LStr ''dump'', LStr reqDump] e)
      else e)"

definition after_handler :: "nat \<Rightarrow> ctx \<Rightarrow> request \<Rightarrow> writer \<times> env \<Rightarrow> writer \<times> env" where
  "after_handler start c r res =
     (case res of
        (rw2, e2) \<Rightarrow>
          (let duration = clock e2 - start;
               e3 = Log_Debug ''request completed''
                      [LStr ''status'', LNat (writer_status rw2),
                       LStr ''duration_ms'', LNat duration,
                       LStr ''size'', LInt (writer_size rw2)] e2
           in (wrapped_writer (run_PostPhase (PostPhase e3) c rw2 r duration), e3)))"

text \<open>Every route of the table holds a handler that \<open>wrapHandler\<close> built.\<close>

definition all_wrapped :: "externals \<Rightarrow> Handler \<Rightarrow> bool" where
  "all_wrapped X h = (\<forall>p route. routes h p = Some route \<longrightarrow> (\<exists>H. route_Handler route = wrapHandler X H))"

text \<open>The handler and the state that \<open>NewHandler\<close> gives for an empty configuration.\<close>

definition default_handler :: Handler where
  "default_handler =
     fst (NewHandler test_externals (record_handler ''grpc'') empty_config ''secret'' empty_env)"

definition default_env :: env where
  "default_env =
     snd (NewHandler test_externals (record_handler ''grpc'') empty_config ''secret'' empty_env)"

text \<open>
  The set-up of the middleware order test: a global middleware, a group \<open>/api\<close> with a
  middleware, its sub-group \<open>/v1\<close> with another, and the route \<open>/test\<close> on the sub-group.
\<close>

definition nested_handler :: Handler where
  "nested_handler =
     Group_Route test_externals (Use default_handler [record_middleware ''global''])
       (Group_Use
          (Group_Group test_externals
             (Group_Use (Handler_Group ''/api'' []) [record_middleware ''group'']) ''/v1'')
          [record_middleware ''nested''])
       ''/test'' (record_handler ''handler'') [''GET'']"




section \<open>Lemmas about writers\<close>

lemma enableDebug_WriteHeader [simp]: "enableDebug (snd (WriteHeader X w st e)) = enableDebug e"
  by (induction w arbitrary: st e)
     (simp_all add: split_beta isDebugEnabled_def Log_Error_def Log_Debug_def
        split: option.splits sum.splits)

lemma fst_WriteHeader_env: "fst (WriteHeader X w st e) = fst (WriteHeader X w st e')"
  by (induction w arbitrary: st e e')
     (auto simp add: split_beta isDebugEnabled_def split: option.splits sum.splits)

lemma enableDebug_Write [simp]: "enableDebug (snd (snd (Write X w b e))) = enableDebug e"
  by (induction X w b e rule: Write.induct) (simp_all add: split_beta Let_def)

lemma count_Write [simp]: "fst (snd (Write X w b e)) = length b"
  by (induction X w b e rule: Write.induct) (simp_all add: split_beta Let_def)

lemma fst_Write_env:
  "enableDebug e = enableDebug e' \<Longrightarrow> fst (Write X w b e) = fst (Write X w b e')"
proof (induction X w b e arbitrary: e' rule: Write.induct)
  case (1 X r b e)
  then show ?case by (simp add: Let_def)
next
  case (2 X w s n c b e)
  show ?case
  proof (cases c)
    case True
    have "fst (Write X w b e) = fst (Write X w b e')"
      using "2.IH"(2) True "2.prems" by blast
    then show ?thesis using True by (simp add: split_beta)
  next
    case False
    have dbg: "enableDebug (snd (WriteHeader X w 200 e))
        = enableDebug (snd (WriteHeader X w 200 e'))"
      using "2.prems" by simp
    have "fst (Write X (fst (WriteHeader X w 200 e)) b (snd (WriteHeader X w 200 e)))
        = fst (Write X (fst (WriteHeader X w 200 e)) b (snd (WriteHeader X w 200 e')))"
      using "2.IH"(1) False dbg by blast
    moreover have "fst (WriteHeader X w 200 e) = fst (WriteHeader X w 200 e')"
      by (rule fst_WriteHeader_env)
    ultimately show ?thesis using False by (simp add: split_beta)
  qed
next
  case (3 X w r buf b e)
  have "fst (Write X w b e) = fst (Write X w b e')"
    using "3.IH" "3.prems" by blast
  then show ?case using "3.prems" by (simp add: split_beta Let_def isDebugEnabled_def)
qed

lemma RespondJSON_Recorder:
  "rec_Sent rc = None \<Longrightarrow>
   RespondJSON X (Recorder rc) status message data e =
     (Recorder (rc\<lparr>rec_Header := Header_Set (rec_Header rc) ''Content-Type'' ''application/json'',
         rec_Sent := Some (status, Header_Set (rec_Header rc) ''Content-Type'' ''application/json''),
         rec_Body := rec_Body rc @ json_Encode X \<lparr>OK = (status \<ge> 200 \<and> status < 300),
            resp_Message = message, Results = data, resp_Error = None\<rparr>\<rparr>), e)"
  by (simp add: RespondJSON_def Let_def SetHeader_def)

section \<open>Lemmas about the error handler\<close>

lemma Handler_Error_App:
  "errors_As err = Some a \<Longrightarrow>
   Handler_Error X w err e =
     (let e1 = Log_Error ''request error''
                 [LStr ''code'', LStr (Code a),
                  LStr ''message'', LStr (Message a),
                  LStr ''details'', LDetails (Details a),
                  LStr ''internal_logs'', LStrs (InternalLogs a),
                  LStr ''original_error'', LErr (MainError a)] e;
          w1 = SetHeader w ''Content-Type'' ''application/json'';
          p = WriteHeader X w1 (StatusCode a) e1;
          q = Write X (fst p) (json_Encode X (error_response a)) (snd p)
      in (fst q, snd (snd q)))"
  by (subst Handler_Error.simps) (simp add: Let_def split_beta error_response_def)

lemma Handler_Error_Other:
  "errors_As err = None \<Longrightarrow>
   Handler_Error X w err e =
     Handler_Error X w
       (EApp (AddInternalLog
          (WithError (NewError ErrCodeInternal ''An internal error occurred'') (Some err))
          (''Unexpected error type: '' @ etype err))) e"
  by (subst Handler_Error.simps) (simp add: Let_def)

lemma Handler_Error_Recorder:
  assumes "errors_As err = Some a" "rec_Sent rc = None"
  shows "Handler_Error X (Recorder rc) err e =
     (Recorder (rc\<lparr>rec_Header := Header_Set (rec_Header rc) ''Content-Type'' ''application/json'',
         rec_Sent := Some (StatusCode a,
            Header_Set (rec_Header rc) ''Content-Type'' ''application/json''),
         rec_Body := rec_Body rc @ json_Encode X (error_response a)\<rparr>),
      Log_Error ''request error''
                 [LStr ''code'', LStr (Code a),
                  LStr ''message'', LStr (Message a),
                  LStr ''details'', LDetails (Details a),
                  LStr ''internal_logs'', LStrs (InternalLogs a),
                  LStr ''original_error'', LErr (MainError a)] e)"
  using assms by (simp add: Handler_Error_App Let_def SetHeader_def)

lemma Handler_Error_depends:
  assumes "Code a = Code a'" "Message a = Message a'" "StatusCode a = StatusCode a'"
  shows "fst (Handler_Error X w (EApp a) e) = fst (Handler_Error X w (EApp a') e)"
proof -
  let ?l = "\<lambda>a. Log_Error ''request error''
                 [LStr ''code'', LStr (Code a),
                  LStr ''message'', LStr (Message a),
                  LStr ''details'', LDetails (Details a),
                  LStr ''internal_logs'', LStrs (InternalLogs a),
                  LStr ''original_error'', LErr (MainError a)] e"
  let ?w1 = "SetHeader w ''Content-Type'' ''application/json''"
  let ?p = "\<lambda>a. WriteHeader X ?w1 (StatusCode a) (?l a)"
  have 1: "fst (?p a) = fst (?p a')"
    using assms fst_WriteHeader_env by metis
  have 2: "enableDebug (snd (?p a)) = enableDebug (snd (?p a'))"
    by (simp add: Log_Error_def)
  have 3: "error_response a = error_response a'"
    using assms by (simp add: error_response_def)
  have "fst (Write X (fst (?p a)) (json_Encode X (error_response a)) (snd (?p a)))
      = fst (Write X (fst (?p a)) (json_Encode X (error_response a)) (snd (?p a')))"
    by (rule fst_Write_env[OF 2])
  also have "\<dots> = fst (Write X (fst (?p a')) (json_Encode X (error_response a')) (snd (?p a')))"
    by (simp only: 1 3)
  finally show ?thesis
    by (simp add: Handler_Error_App Let_def)
qed

section \<open>Lemmas about registration and dispatch\<close>

lemma protocols_Route [simp]: "protocols (Route X h p H ms) = protocols h"
  by (simp add: Route_def Let_def)

lemma grpcServer_Route [simp]: "grpcServer (Route X h p H ms) = grpcServer h"
  by (simp add: Route_def Let_def)

lemma protocols_register_all [simp]: "protocols (register_all X h regs) = protocols h"
  unfolding register_all_def by (induction regs arbitrary: h) auto

lemma grpcServer_register_all [simp]: "grpcServer (register_all X h regs) = grpcServer h"
  unfolding register_all_def by (induction regs arbitrary: h) auto

lemma protocols_NewHandler [simp]:
  "protocols (fst (NewHandler X grpc cfg key e)) = [PH_GRPC, PH_WebSocket]"
  by (simp add: NewHandler_def Let_def Handler_Get_def Handler_Post_def)

lemma grpcServer_NewHandler [simp]:
  "grpcServer (fst (NewHandler X grpc cfg key e)) = grpc"
  by (simp add: NewHandler_def Let_def Handler_Get_def Handler_Post_def)

lemma find_protocol_first:
  "\<forall>p \<in> set before. \<not> DetectProtocol X p r \<Longrightarrow> DetectProtocol X ph r \<Longrightarrow>
   find_protocol X (before @ ph # rest) r = Some ph"
  by (induction before) auto

lemma isMethodAllowed_set: "isMethodAllowed m ms \<longleftrightarrow> m \<in> set ms"
  by (induction ms) auto

lemma wrap_reverse_foldr: "wrap_reverse mws h = foldr (\<lambda>m acc. m acc) mws h"
  by (simp add: wrap_reverse_def foldr_conv_fold)

lemma wrap_reverse_Nil [simp]: "wrap_reverse [] h = h"
  by (simp add: wrap_reverse_def)

lemma wrap_reverse_Cons [simp]: "wrap_reverse (m # ms) h = m (wrap_reverse ms h)"
  by (simp add: wrap_reverse_foldr)

lemma routes_one_route_handler:
  "routes (one_route_handler ms) ''/x'' =
     Some \<lparr>Methods = (if ms = [] then [''GET''] else ms),
           route_Handler = wrapHandler test_externals (record_handler ''route'')\<rparr>"
  by (simp add: one_route_handler_def register_all_def Route_def Let_def MethodGet_def)

lemma routeOrder_register_all:
  "routeOrder (register_all X h regs) = routeOrder h @ map fst regs"
  unfolding register_all_def
  by (induction regs arbitrary: h) (auto simp add: Route_def Let_def)

lemma routes_Route:
  "routes (Route X h p H ms) q =
     (if q = p then Some \<lparr>Methods = (if ms = [] then [MethodGet] else ms),
                          route_Handler = wrapHandler X H\<rparr>
      else routes h q)"
  by (simp add: Route_def Let_def)

lemma routes_register_all_other:
  "\<forall>reg \<in> set regs. fst reg \<noteq> p \<Longrightarrow> routes (register_all X h regs) p = routes h p"
  unfolding register_all_def
  by (induction regs arbitrary: h) (auto simp add: routes_Route)

lemma register_all_append:
  "register_all X h (xs @ ys) = register_all X (register_all X h xs) ys"
  by (simp add: register_all_def)

lemma register_all_Cons:
  "register_all X h ((p, H, ms) # ys) = register_all X (Route X h p H ms) ys"
  by (simp add: register_all_def)

lemma count_list_append: "count_list (xs @ ys) x = count_list xs x + count_list ys x"
  by (induction xs) auto

lemma count_list_map_fst:
  "count_list (map fst regs) p = length (filter (\<lambda>reg. fst reg = p) regs)"
  by (induction regs) auto

lemma PrePhase_request_dump_logged [simp]:
  "PrePhase (request_dump_logged X r e) = PrePhase e"
  by (simp add: request_dump_logged_def Log_Error_def Log_Debug_def split: sum.splits)

lemma order_request_dump_logged [simp]:
  "order (request_dump_logged X r e) = order e"
  by (simp add: request_dump_logged_def Log_Error_def Log_Debug_def split: sum.splits)

lemma order_after_handler [simp]:
  "order (snd (after_handler start c r res)) = order (snd res)"
  by (simp add: after_handler_def Let_def Log_Debug_def split: prod.splits)

lemma wrapHandler_pre_ok:
  assumes "run_PrePhase (PrePhase e) (ReqContext r)
             (debugResponseWriter (ResponseWriter w 200 0 False) r []) r = (rw1, c1, None)"
  shows "wrapHandler X H w r e =
     after_handler (clock e) c1 r (H rw1 (r\<lparr>ReqContext := c1\<rparr>) (request_dump_logged X r e))"
  using assms
  by (simp add: wrapHandler_def Let_def request_dump_logged_def after_handler_def
      Log_Error_def Log_Debug_def split: sum.splits)

lemma run_PrePhase_append:
  "run_PrePhase (pres @ [f]) c rw r =
     (case run_PrePhase pres c rw r of
        (rw1, c1, Some err) \<Rightarrow> (rw1, c1, Some err)
      | (rw1, c1, None) \<Rightarrow> f c1 rw1 r)"
proof (induction pres arbitrary: c rw)
  case Nil
  show ?case by (simp split: prod.splits option.splits)
next
  case (Cons p pres)
  show ?case by (simp add: Cons split: prod.splits option.splits)
qed

lemma Header_Header_map [simp]: "Header (Header_map f w) = f (Header w)"
  by (induction w) simp_all

lemma Header_Get_SetHeader [simp]: "Header_Get (Header (SetHeader w k v)) k = v"
  by (simp add: SetHeader_def Header_Get_def Header_Set_def)

lemma middleware_Route [simp]: "middleware (Route X h p H ms) = middleware h"
  by (simp add: Route_def Let_def)

lemma middleware_register_all [simp]: "middleware (register_all X h regs) = middleware h"
  unfolding register_all_def by (induction regs arbitrary: h) auto

lemma middleware_NewHandler [simp]: "middleware (fst (NewHandler X grpc cfg key e)) = []"
  by (simp add: NewHandler_def Let_def Handler_Get_def Handler_Post_def)

lemma PrePhase_NewHandler:
  "PrePhase (snd (NewHandler X grpc cfg key e)) = cfg_PrePhase cfg @ [default_PreRequestFunc]"
  by (simp add: NewHandler_def Let_def AddPreRequestFunc_def)

lemma all_wrapped_Route: "all_wrapped X h \<Longrightarrow> all_wrapped X (Route X h p H ms)"
  by (auto simp add: all_wrapped_def routes_Route)

lemma all_wrapped_register_all: "all_wrapped X h \<Longrightarrow> all_wrapped X (register_all X h regs)"
  unfolding register_all_def
  by (induction regs arbitrary: h) (auto simp add: all_wrapped_Route)

lemma all_wrapped_NewHandler: "all_wrapped X (fst (NewHandler X grpc cfg key e))"
  by (auto simp add: NewHandler_def Let_def Handler_Get_def Handler_Post_def all_wrapped_def
      routes_Route split: if_splits)

lemma inner_handler_route:
  assumes "find_protocol X (protocols h) r = None"
      and "routes h (Path r) = Some route"
      and "Method r \<in> set (Methods route)"
  shows "inner_handler X h w r e = route_Handler route w r e"
  using assms by (simp add: inner_handler_def isMethodAllowed_set)

lemma default_env_eq:
  "default_env = empty_env\<lparr>PrePhase := [default_PreRequestFunc], authKey := ''secret''\<rparr>"
  by (simp add: default_env_def NewHandler_def Let_def AddPreRequestFunc_def empty_config_def
      empty_env_def)

lemma find_protocol_plain:
  "find_protocol test_externals [PH_GRPC, PH_WebSocket] (plain_request m p) = None"
  by (simp add: DetectProtocol_def GRPC_DetectProtocol_def plain_request_def test_externals_def
      Header_Get_def)


lemma protocols_Use [simp]: "protocols (Use h mws) = protocols h"
  by (simp add: Use_def)

lemma inner_handler_pre_ok:
  assumes "find_protocol X (protocols h) r = None"
      and "routes h (Path r) = Some \<lparr>Methods = ms, route_Handler = wrapHandler X K\<rparr>"
      and "Method r \<in> set ms"
      and "run_PrePhase (PrePhase e) (ReqContext r)
             (debugResponseWriter (ResponseWriter w 200 0 False) r []) r = (rw1, c1, None)"
  shows "inner_handler X h w r e =
     after_handler (clock e) c1 r (K rw1 (r\<lparr>ReqContext := c1\<rparr>) (request_dump_logged X r e))"
proof -
  have "inner_handler X h w r e = wrapHandler X K w r e"
    using inner_handler_route [OF assms(1) assms(2)] assms(3) by simp
  then show ?thesis
    using wrapHandler_pre_ok [OF assms(4)] by simp
qed

section \<open>Lemmas about the debug endpoint\<close>

lemma WriteHeader_logs:
  "(snd (WriteHeader X w st e))\<lparr>logs := []\<rparr> = e\<lparr>logs := []\<rparr>"
  by (induction w arbitrary: st e)
     (simp_all add: split_beta isDebugEnabled_def Log_Error_def Log_Debug_def
        split: option.splits sum.splits)

lemma Write_logs:
  "(snd (snd (Write X w b e)))\<lparr>logs := []\<rparr> = e\<lparr>logs := []\<rparr>"
proof (induction X w b e rule: Write.induct)
  case (1 X r b e)
  then show ?case by (simp add: Let_def)
next
  case (2 X w s n c b e)
  show ?case
  proof (cases c)
    case True
    then show ?thesis using "2.IH"(2) by (simp add: split_beta)
  next
    case False
    then show ?thesis using "2.IH"(1) WriteHeader_logs [of X w 200 e] by (simp add: split_beta)
  qed
next
  case (3 X w r buf b e)
  then show ?case by (simp add: split_beta Let_def)
qed

lemma PostPhase_WriteHeader [simp]: "PostPhase (snd (WriteHeader X w st e)) = PostPhase e"
  using arg_cong [OF WriteHeader_logs, of PostPhase X w st e] by simp

lemma PostPhase_Write [simp]: "PostPhase (snd (snd (Write X w b e))) = PostPhase e"
  using arg_cong [OF Write_logs, of PostPhase X w b e] by simp

lemma response_of_wrapped_writer [simp]: "response_of (wrapped_writer w) = response_of w"
  by (induction w rule: wrapped_writer.induct) simp_all

lemma response_of_Header_map_fresh:
  "response_of (Header_map f (debugResponseWriter (ResponseWriter (Recorder rc) s n c) r buf))
     = response_of (Recorder (rc\<lparr>rec_Header := f (rec_Header rc)\<rparr>))"
  by simp













section \<open>Lemmas about the request identifier\<close>

lemma decimal_value_snoc:
  "decimal_value (s @ [c]) = 10 * decimal_value s + (of_char c - 48)"
  by (simp add: decimal_value_def)


lemma of_char_digit: "(d::nat) < 10 \<Longrightarrow> (of_char (''0123456789'' ! d) :: nat) = 48 + d"
proof -
  assume "d < 10"
  then have "d = 0 \<or> d = 1 \<or> d = 2 \<or> d = 3 \<or> d = 4 \<or> d = 5 \<or> d = 6 \<or> d = 7
      \<or> d = 8 \<or> d = 9"
    by arith
  then show ?thesis by (elim disjE) simp_all
qed

lemma decimal_value_decimal: "decimal_value (decimal n) = n"
proof (induction n rule: decimal.induct)
  case (1 n)
  show ?case
  proof (cases "n < 10")
    case True
    then show ?thesis
      using of_char_digit [of n] by (subst decimal.simps) (simp add: decimal_value_def)
  next
    case False
    then have "decimal_value (decimal (n div 10)) = n div 10"
      using 1 by simp
    moreover have "(of_char (''0123456789'' ! (n mod 10)) :: nat) = 48 + n mod 10"
      by (rule of_char_digit) simp
    ultimately show ?thesis
      using False by (subst decimal.simps) (simp add: decimal_value_snoc)
  qed
qed

lemma decimal_value_zeros: "decimal_value (replicate k (CHR ''0'') @ s) = decimal_value s"
proof -
  have "foldl (\<lambda>acc c. 10 * acc + (of_char c - 48)) 0 (replicate k (CHR ''0'')) = (0::nat)"
    by (induction k) simp_all
  then show ?thesis by (simp add: decimal_value_def)
qed

lemma length_decimal_le: "0 < k \<Longrightarrow> n < 10 ^ k \<Longrightarrow> length (decimal n) \<le> k"
proof (induction n arbitrary: k rule: decimal.induct)
  case (1 n)
  show ?case
  proof (cases "n < 10")
    case True
    then show ?thesis using "1.prems" by (subst decimal.simps) simp
  next
    case False
    obtain j where k: "k = Suc j" using "1.prems"(1) by (cases k) auto
    have "j > 0" using False "1.prems"(2) k by (cases j) auto
    moreover have "n div 10 < 10 ^ j" using "1.prems"(2) k
      by (simp add: less_mult_imp_div_less mult.commute)
    ultimately have "length (decimal (n div 10)) \<le> j" using "1.IH" False by simp
    then show ?thesis using False k by (subst decimal.simps) simp
  qed
qed

lemma length_decimal_gt: "10 ^ k \<le> n \<Longrightarrow> k < length (decimal n)"
proof (induction n arbitrary: k rule: decimal.induct)
  case (1 n)
  show ?case
  proof (cases "n < 10")
    case True
    have "k = 0"
    proof (cases k)
      case 0
      then show ?thesis .
    next
      case (Suc j)
      have "(1::nat) \<le> 10 ^ j" by simp
      then have "(10::nat) \<le> 10 * 10 ^ j" by simp
      moreover have "10 * 10 ^ j \<le> n" using "1.prems" Suc by simp
      ultimately show ?thesis using True by linarith
    qed
    then show ?thesis using True by (subst decimal.simps) simp
  next
    case False
    show ?thesis
    proof (cases k)
      case 0
      then show ?thesis using False by (subst decimal.simps) simp
    next
      case (Suc j)
      then have "10 ^ j \<le> n div 10" using "1.prems" by (simp add: less_eq_div_iff_mult_less_eq mult.commute)
      then have "j < length (decimal (n div 10))" using "1.IH" False by simp
      then show ?thesis using False Suc by (subst decimal.simps) simp
    qed
  qed
qed

lemma length_fmt_06d:
  "length (fmt_06d n) = (if n < 1000000 then 6 else length (decimal n))"
proof (cases "n < 1000000")
  case True
  then have "length (decimal n) \<le> 6" using length_decimal_le [of 6 n] by simp
  then show ?thesis using True by (simp add: fmt_06d_def)
next
  case False
  then have "6 < length (decimal n)" using length_decimal_gt [of 6 n] by simp
  then show ?thesis using False by (simp add: fmt_06d_def)
qed

lemma shardCounter_less: "shardCounter key < 64"
proof -
  have "fnv64a key mod 64 < 64"
    by (rule word_mod_less_divisor) simp
  then show ?thesis
    unfolding shardCounter_def by (simp add: word_less_nat_alt)
qed


lemma digit_char: "(d::nat) < 10 \<Longrightarrow> ''0123456789'' ! d \<in> set ''0123456789''"
  by (rule nth_mem) simp

lemma set_decimal: "set (decimal n) \<subseteq> set ''0123456789''"
proof (induction n rule: decimal.induct)
  case (1 n)
  show ?case
  proof (cases "n < 10")
    case True
    then show ?thesis using digit_char [of n] by (subst decimal.simps) simp
  next
    case False
    have "n mod 10 < 10" by simp
    then have "''0123456789'' ! (n mod 10) \<in> set ''0123456789''" by (rule digit_char)
    then show ?thesis using False "1.IH" by (subst decimal.simps) simp
  qed
qed

lemma set_fmt_06d: "set (fmt_06d n) \<subseteq> set ''0123456789''"
  using set_decimal [of n] by (auto simp add: fmt_06d_def)

section \<open>The error model: theorems\<close>

text \<open>
  C3. For every code and message, \<open>NewError\<close> sets \<open>StatusCode\<close> from the fixed table:
  validation and bad request give 400, unauthorized 401, not found 404, every other code
  500. The status is computed at construction only: no builder method changes it.
\<close>

theorem NewError_StatusCode:
  "StatusCode (NewError code message) =
     (if code = ErrCodeValidation \<or> code = ErrCodeBadRequest then 400
      else if code = ErrCodeUnauthorized then 401
      else if code = ErrCodeNotFound then 404
      else 500)
   \<and> StatusCode (NewError ErrCodeInternal message) = 500
   \<and> StatusCode (WithError e err) = StatusCode e
   \<and> StatusCode (WithContext e c) = StatusCode e
   \<and> StatusCode (WithDetail now trace e code' m) = StatusCode e
   \<and> StatusCode (WithField now e f m) = StatusCode e
   \<and> StatusCode (WithMetadata e k v) = StatusCode e
   \<and> StatusCode (AddInternalLog e m) = StatusCode e"
  by (simp add: NewError_def getHTTPStatusForErrorCode_def WithError_def WithContext_def
      WithDetail_def WithField_def WithMetadata_def AddInternalLog_def set_Details_def
      ErrCode_defs Let_def)


text \<open>
  C8 (the code departs from the claim). The claim: \<open>WithField(f, m)\<close> gives the same
  result as \<open>WithDetail(ValidationCode, m)\<close> followed by setting the field of the new
  detail, stack snapshot included. On the error \<open>NewError(VALIDATION_ERROR, "v")\<close> with
  field \<open>email\<close> and message \<open>bad\<close>, the detail that \<open>WithField\<close> appends has an empty
  stack, while \<open>WithDetail\<close> records the lines of the stack text; the two results differ.
\<close>

theorem WithField_no_stack:
  "Stack (detail_Context (last (Details
      (WithField 7 (NewError ErrCodeValidation ''v'') ''email'' ''bad'')))) = []
   \<and> Stack (detail_Context (last (Details
      (WithField_spec 7 ''goroutine 1 [running]:'' (NewError ErrCodeValidation ''v'')
         ''email'' ''bad'')))) = [''goroutine 1 [running]:'']
   \<and> WithField 7 (NewError ErrCodeValidation ''v'') ''email'' ''bad''
      \<noteq> WithField_spec 7 ''goroutine 1 [running]:'' (NewError ErrCodeValidation ''v'')
          ''email'' ''bad''"
  by (simp add: WithField_def WithField_spec_def WithDetail_def set_last_Field_def
      set_Details_def NewError_def strings_TrimSpace_def is_space_def Let_def)

lemma WithField_eq_spec_iff:
  "(WithField now e f m = WithField_spec now trace e f m)
     = (stack_lines (split_lines (take 4096 trace)) = [])"
  by (auto simp add: WithField_def WithField_spec_def WithDetail_def set_last_Field_def
      set_Details_def Let_def)

section \<open>The error handler: theorems\<close>

text \<open>
  C5. For every error passed to \<open>Handler.Error\<close>: when it is or wraps an \<open>AppError\<close>, the
  response on a writer that has sent nothing has the error's precomputed status and, as
  its body, the encoded envelope built from the code and the message alone. When it is
  any other error, the call is the call on a fresh internal error that carries the
  original as \<open>MainError\<close> and one internal log naming its type; that error is an
  \<open>AppError\<close>, so the second call does not recurse again. Whatever the writer, what is
  written depends on the code, the message and the status only: internal logs, the
  wrapped cause and the details (with their stacks) do not reach the client.
\<close>

theorem Handler_Error_client_response:
  "(errors_As err = Some a \<and> rec_Sent rc = None \<longrightarrow>
      response_of (fst (Handler_Error X (Recorder rc) err e)) =
        (StatusCode a,
         Header_Set (rec_Header rc) ''Content-Type'' ''application/json'',
         rec_Body rc @ json_Encode X
           \<lparr>OK = False, resp_Message = Message a, Results = None,
            resp_Error = Some \<lparr>info_Code = Code a, info_Message = Message a\<rparr>\<rparr>))
   \<and> (errors_As err = None \<longrightarrow>
        (\<exists>d. Handler_Error X w err e = Handler_Error X w (EApp d) e
           \<and> errors_As (EApp d) = Some d
           \<and> MainError d = Some err
           \<and> InternalLogs d = [''Unexpected error type: '' @ etype err]
           \<and> Code d = ErrCodeInternal \<and> Message d = ''An internal error occurred''
           \<and> StatusCode d = 500 \<and> Details d = []))
   \<and> (Code a1 = Code a2 \<and> Message a1 = Message a2 \<and> StatusCode a1 = StatusCode a2 \<longrightarrow>
        fst (Handler_Error X w (EApp a1) e) = fst (Handler_Error X w (EApp a2) e))"
proof (intro conjI impI)
  assume "errors_As err = Some a \<and> rec_Sent rc = None"
  then show "response_of (fst (Handler_Error X (Recorder rc) err e)) =
        (StatusCode a,
         Header_Set (rec_Header rc) ''Content-Type'' ''application/json'',
         rec_Body rc @ json_Encode X
           \<lparr>OK = False, resp_Message = Message a, Results = None,
            resp_Error = Some \<lparr>info_Code = Code a, info_Message = Message a\<rparr>\<rparr>)"
    by (simp add: Handler_Error_Recorder error_response_def)
next
  assume n: "errors_As err = None"
  let ?d = "AddInternalLog
          (WithError (NewError ErrCodeInternal ''An internal error occurred'') (Some err))
          (''Unexpected error type: '' @ etype err)"
  have "Handler_Error X w err e = Handler_Error X w (EApp ?d) e"
    using n by (rule Handler_Error_Other)
  moreover have "errors_As (EApp ?d) = Some ?d" by simp
  moreover have "MainError ?d = Some err
      \<and> InternalLogs ?d = [''Unexpected error type: '' @ etype err]
      \<and> Code ?d = ErrCodeInternal \<and> Message ?d = ''An internal error occurred''
      \<and> StatusCode ?d = 500 \<and> Details ?d = []"
    by (simp add: AddInternalLog_def WithError_def NewError_def getHTTPStatusForErrorCode_def
        ErrCode_defs)
  ultimately show "\<exists>d. Handler_Error X w err e = Handler_Error X w (EApp d) e
           \<and> errors_As (EApp d) = Some d
           \<and> MainError d = Some err
           \<and> InternalLogs d = [''Unexpected error type: '' @ etype err]
           \<and> Code d = ErrCodeInternal \<and> Message d = ''An internal error occurred''
           \<and> StatusCode d = 500 \<and> Details d = []"
    by blast
next
  assume "Code a1 = Code a2 \<and> Message a1 = Message a2 \<and> StatusCode a1 = StatusCode a2"
  then show "fst (Handler_Error X w (EApp a1) e) = fst (Handler_Error X w (EApp a2) e)"
    using Handler_Error_depends by blast
qed

theorem Handler_Error_client_response_witness:
  \<open>errors_As (EOther ''*errors.errorString'' ''boom'' None) = None
   \<and> response_of (fst (Handler_Error test_externals NewRecorder
        (EOther ''*errors.errorString'' ''boom'' None) empty_env)) =
       (500, [''Content-Type'' \<mapsto> [''application/json'']],
        ''{"ok":false,"message":"An internal error occurred","error":{"code":"INTERNAL_ERROR","message":"An internal error occurred"}}''
          @ [CHR 0x0A])
   \<and> fst (Handler_Error test_externals NewRecorder
        (EApp (AddInternalLog (NewError ErrCodeNotFound ''no such user'') ''db row 17 missing''))
        empty_env)
     = fst (Handler_Error test_externals NewRecorder
        (EApp (NewError ErrCodeNotFound ''no such user'')) empty_env)\<close>
proof -
  let ?err = "EOther ''*errors.errorString'' ''boom'' None"
  have n: "errors_As ?err = None" by simp
  obtain d where d: "Handler_Error test_externals NewRecorder ?err empty_env
        = Handler_Error test_externals NewRecorder (EApp d) empty_env"
      "errors_As (EApp d) = Some d" "Code d = ErrCodeInternal"
      "Message d = ''An internal error occurred''" "StatusCode d = 500"
    using Handler_Error_client_response [where err = ?err and X = test_externals
        and w = NewRecorder and e = empty_env] n
    by blast
  have f: "rec_Sent \<lparr>rec_Header = Map.empty, rec_Sent = None, rec_Body = []\<rparr> = None" by simp
  have "response_of (fst (Handler_Error test_externals NewRecorder (EApp d) empty_env)) =
       (500, [''Content-Type'' \<mapsto> [''application/json'']],
        plain_json_Encode \<lparr>OK = False, resp_Message = ''An internal error occurred'',
          Results = None, resp_Error = Some \<lparr>info_Code = ErrCodeInternal,
            info_Message = ''An internal error occurred''\<rparr>\<rparr>)"
    using Handler_Error_client_response [where err = "EApp d" and a = d and X = test_externals
        and rc = "\<lparr>rec_Header = Map.empty, rec_Sent = None, rec_Body = []\<rparr>" and e = empty_env]
      d(2-5) f
    by (simp add: NewRecorder_def Header_Set_def test_externals_def)
  then have 1: \<open>response_of (fst (Handler_Error test_externals NewRecorder ?err empty_env)) =
       (500, [''Content-Type'' \<mapsto> [''application/json'']],
        ''{"ok":false,"message":"An internal error occurred","error":{"code":"INTERNAL_ERROR","message":"An internal error occurred"}}''
          @ [CHR 0x0A])\<close>
    by (simp add: d(1) plain_json_Encode_def ErrCode_defs)
  have 2: "fst (Handler_Error test_externals NewRecorder
        (EApp (AddInternalLog (NewError ErrCodeNotFound ''no such user'') ''db row 17 missing''))
        empty_env)
     = fst (Handler_Error test_externals NewRecorder
        (EApp (NewError ErrCodeNotFound ''no such user'')) empty_env)"
    using Handler_Error_client_response [where
        ?a1.0 = "AddInternalLog (NewError ErrCodeNotFound ''no such user'') ''db row 17 missing''"
        and ?a2.0 = "NewError ErrCodeNotFound ''no such user''"
        and X = test_externals and w = NewRecorder and e = empty_env]
    by (simp add: AddInternalLog_def NewError_def)
  show ?thesis using n 1 2 by simp
qed

section \<open>The dispatcher: theorems\<close>

text \<open>
  C1. When the handlers before \<open>ph\<close> in \<open>h.protocols\<close> reject a request and \<open>ph\<close> accepts
  it, the function that \<open>ServeHTTP\<close> runs is \<open>ph.Handle\<close> and nothing else, whatever the
  route table and the static fallback hold. In particular, on a handler made by
  \<open>NewHandler\<close>, with any routes registered afterwards, a request that the gRPC detector
  accepts is served by the gRPC server, also when its path is a registered route.
\<close>

theorem protocol_handlers_first:
  "(protocols h = before @ ph # rest \<and> (\<forall>p \<in> set before. \<not> DetectProtocol X p r)
      \<and> DetectProtocol X ph r
    \<longrightarrow> inner_handler X (h\<lparr>routes := rt, fileServer := fs\<rparr>) w r e = Handle X h ph w r e)
   \<and> (GRPC_DetectProtocol r \<longrightarrow>
        inner_handler X (register_all X (fst (NewHandler X grpc cfg key e0)) regs) w r e
          = grpc w r e)"
proof (intro conjI impI)
  assume a: "protocols h = before @ ph # rest \<and> (\<forall>p \<in> set before. \<not> DetectProtocol X p r)
      \<and> DetectProtocol X ph r"
  then have "find_protocol X (protocols h) r = Some ph"
    using find_protocol_first by simp
  then show "inner_handler X (h\<lparr>routes := rt, fileServer := fs\<rparr>) w r e = Handle X h ph w r e"
    by (cases ph) (simp_all add: inner_handler_def Handle_def)
next
  assume "GRPC_DetectProtocol r"
  then show "inner_handler X (register_all X (fst (NewHandler X grpc cfg key e0)) regs) w r e
          = grpc w r e"
    by (simp add: inner_handler_def Handle_def DetectProtocol_def)
qed

theorem protocol_handlers_first_witness:
  "GRPC_DetectProtocol grpc_request
   \<and> routes (one_route_handler [''POST'']) (Path grpc_request) \<noteq> None
   \<and> isMethodAllowed (Method grpc_request) [''POST'']
   \<and> inner_handler test_externals (one_route_handler [''POST'']) NewRecorder grpc_request empty_env
       = record_handler ''grpc'' NewRecorder grpc_request empty_env
   \<and> inner_handler test_externals
        ((one_route_handler [''POST''])\<lparr>routes := Map.empty, fileServer := None\<rparr>)
        NewRecorder grpc_request empty_env
       = Handle test_externals (one_route_handler [''POST'']) PH_GRPC NewRecorder grpc_request empty_env"
proof -
  have d: "GRPC_DetectProtocol grpc_request"
    by (simp add: GRPC_DetectProtocol_def grpc_request_def plain_request_def Header_Get_def)
  have p: "protocols (one_route_handler [''POST'']) = [] @ PH_GRPC # [PH_WebSocket]"
    by (simp add: one_route_handler_def)
  have r: "routes (one_route_handler [''POST'']) (Path grpc_request) \<noteq> None"
    by (simp add: routes_one_route_handler grpc_request_def plain_request_def)
  have m: "isMethodAllowed (Method grpc_request) [''POST'']"
    by (simp add: grpc_request_def plain_request_def)
  show ?thesis
    using protocol_handlers_first [where h = "one_route_handler [''POST'']" and before = "[]"
        and ph = PH_GRPC and rest = "[PH_WebSocket]" and X = test_externals
        and r = grpc_request and rt = Map.empty and fs = None and w = NewRecorder
        and e = empty_env and grpc = "record_handler ''grpc''" and cfg = empty_config
        and key = "''secret''" and ?e0.0 = empty_env
        and regs = "[(''/x'', record_handler ''route'', [''POST''])]"]
      d p r m
    by (simp add: DetectProtocol_def one_route_handler_def)
qed

text \<open>
  C6. For a request that no protocol handler claims, whose path is a registered route
  and whose method is not among the route's methods, the dispatcher runs
  \<open>handleMethodNotAllowed\<close> and not the route's handler: on a writer that has sent
  nothing, the status is 405, the \<open>Allow\<close> header holds the allowed methods joined by a
  comma and a space, and the body is the encoded envelope with the message
  \<open>Method not allowed\<close>, the allowed methods and the current method. The state is left
  as it was.
\<close>

theorem method_not_allowed:
  assumes "find_protocol X (protocols h) r = None"
      and "routes h (Path r) = Some route"
      and "Method r \<notin> set (Methods route)"
      and "rec_Sent rc = None"
  shows "inner_handler X h w r e = handleMethodNotAllowed X w r (Methods route) e
     \<and> response_of (fst (inner_handler X h (Recorder rc) r e)) =
         (405,
          Header_Set (Header_Set (rec_Header rc) ''Allow'' (strings_Join (Methods route) '', ''))
             ''Content-Type'' ''application/json'',
          rec_Body rc @ json_Encode X \<lparr>OK = False, resp_Message = ''Method not allowed'',
            Results = Some (JObject [(''allowed_methods'', JArray (map JString (Methods route))),
                                     (''current_method'', JString (Method r))]),
            resp_Error = None\<rparr>)
     \<and> snd (inner_handler X h (Recorder rc) r e) = e"
  using assms
  by (simp add: inner_handler_def handleMethodNotAllowed_def RespondJSON_Recorder SetHeader_def
       isMethodAllowed_set)

theorem method_not_allowed_witness:
  \<open>find_protocol test_externals (protocols (one_route_handler [''GET'']))
      (plain_request ''POST'' ''/x'') = None
   \<and> routes (one_route_handler [''GET'']) (Path (plain_request ''POST'' ''/x''))
      = Some \<lparr>Methods = [''GET''],
              route_Handler = wrapHandler test_externals (record_handler ''route'')\<rparr>
   \<and> response_of (fst (inner_handler test_externals (one_route_handler [''GET'']) NewRecorder
        (plain_request ''POST'' ''/x'') empty_env)) =
       (405, [''Allow'' \<mapsto> [''GET''], ''Content-Type'' \<mapsto> [''application/json'']],
        ''{"ok":false,"message":"Method not allowed","results":{"allowed_methods":["GET"],"current_method":"POST"}}''
          @ [CHR 0x0A])
   \<and> order (snd (inner_handler test_externals (one_route_handler [''GET'']) NewRecorder
        (plain_request ''POST'' ''/x'') empty_env)) = []\<close>
proof -
  let ?r = "plain_request ''POST'' ''/x''"
  let ?route = "\<lparr>Methods = [''GET''],
              route_Handler = wrapHandler test_externals (record_handler ''route'')\<rparr>"
  let ?rc = "\<lparr>rec_Header = Map.empty, rec_Sent = None, rec_Body = []\<rparr>"
  have a: "find_protocol test_externals (protocols (one_route_handler [''GET''])) ?r = None"
    by (simp add: one_route_handler_def DetectProtocol_def GRPC_DetectProtocol_def
        plain_request_def test_externals_def Header_Get_def)
  have b: "routes (one_route_handler [''GET'']) (Path ?r) = Some ?route"
    by (simp add: routes_one_route_handler plain_request_def)
  have c: "Method ?r \<notin> set (Methods ?route)"
    by (simp add: plain_request_def)
  have d: "rec_Sent ?rc = None" by simp
  note t = method_not_allowed [OF a b c d, of NewRecorder empty_env]
  have rhs: \<open>(405,
          Header_Set (Header_Set (rec_Header ?rc) ''Allow'' (strings_Join (Methods ?route) '', ''))
             ''Content-Type'' ''application/json'',
          rec_Body ?rc @ json_Encode test_externals
           \<lparr>OK = False, resp_Message = ''Method not allowed'',
            Results = Some (JObject [(''allowed_methods'', JArray (map JString (Methods ?route))),
                                     (''current_method'', JString (Method ?r))]),
            resp_Error = None\<rparr>)
      = (405, [''Allow'' \<mapsto> [''GET''], ''Content-Type'' \<mapsto> [''application/json'']],
        ''{"ok":false,"message":"Method not allowed","results":{"allowed_methods":["GET"],"current_method":"POST"}}''
          @ [CHR 0x0A])\<close>
    by (simp add: Header_Set_def test_externals_def plain_json_Encode_def plain_request_def)
  have 1: \<open>response_of (fst (inner_handler test_externals (one_route_handler [''GET''])
        NewRecorder ?r empty_env)) =
       (405, [''Allow'' \<mapsto> [''GET''], ''Content-Type'' \<mapsto> [''application/json'']],
        ''{"ok":false,"message":"Method not allowed","results":{"allowed_methods":["GET"],"current_method":"POST"}}''
          @ [CHR 0x0A])\<close>
    unfolding NewRecorder_def using t [THEN conjunct2, THEN conjunct1] rhs by (rule trans)
  have 2: "order (snd (inner_handler test_externals (one_route_handler [''GET''])
        NewRecorder ?r empty_env)) = []"
  proof -
    have "snd (inner_handler test_externals (one_route_handler [''GET''])
        NewRecorder ?r empty_env) = empty_env"
      using t unfolding NewRecorder_def by blast
    moreover have "order empty_env = []"
      by (simp add: empty_env_def)
    ultimately show ?thesis by (simp only:)
  qed
  show ?thesis using a b 1 2 by blast
qed

text \<open>
  C9. For every sequence of calls of \<open>Route\<close>: the order sequence grows by one entry per
  call, so a pattern registered n times occurs n more times in it; the route map holds,
  for a pattern, what its last registration gave, with \<open>GET\<close> as the methods when none
  were given; and \<open>GetRegisteredRoutes\<close> lists one entry per element of the order
  sequence, each showing the live route.
\<close>

theorem route_reregistration:
  assumes "regs = before @ (p, H, ms) # after"
      and "\<forall>reg \<in> set after. fst reg \<noteq> p"
  shows "routeOrder (register_all X h regs) = routeOrder h @ map fst regs
     \<and> count_list (routeOrder (register_all X h regs)) p
         = count_list (routeOrder h) p + length (filter (\<lambda>reg. fst reg = p) regs)
     \<and> routes (register_all X h regs) p
         = Some \<lparr>Methods = (if ms = [] then [''GET''] else ms),
                 route_Handler = wrapHandler X H\<rparr>
     \<and> take (length (routeOrder (register_all X h regs)))
          (GetRegisteredRoutes X (register_all X h regs))
         = map (\<lambda>q. case routes (register_all X h regs) q of
                       Some route \<Rightarrow> \<lparr>Pattern = q, info_Methods = Methods route,
                          info_Handler = FuncName X (route_Handler route)\<rparr>
                     | None \<Rightarrow> \<lparr>Pattern = q, info_Methods = [], info_Handler = []\<rparr>)
             (routeOrder h @ map fst regs)"
proof -
  have 1: "routeOrder (register_all X h regs) = routeOrder h @ map fst regs"
    by (rule routeOrder_register_all)
  have 2: "count_list (routeOrder (register_all X h regs)) p
         = count_list (routeOrder h) p + length (filter (\<lambda>reg. fst reg = p) regs)"
    by (simp add: 1 count_list_append count_list_map_fst)
  have "routes (register_all X h regs) p
      = routes (register_all X (Route X (register_all X h before) p H ms) after) p"
    by (simp add: assms(1) register_all_append register_all_Cons)
  also have "\<dots> = routes (Route X (register_all X h before) p H ms) p"
    using assms(2) by (rule routes_register_all_other)
  also have "\<dots> = Some \<lparr>Methods = (if ms = [] then [''GET''] else ms),
                 route_Handler = wrapHandler X H\<rparr>"
    by (simp add: routes_Route MethodGet_def)
  finally have 3: "routes (register_all X h regs) p
         = Some \<lparr>Methods = (if ms = [] then [''GET''] else ms),
                 route_Handler = wrapHandler X H\<rparr>" .
  have 4: "take (length (routeOrder (register_all X h regs)))
          (GetRegisteredRoutes X (register_all X h regs))
         = map (\<lambda>q. case routes (register_all X h regs) q of
                       Some route \<Rightarrow> \<lparr>Pattern = q, info_Methods = Methods route,
                          info_Handler = FuncName X (route_Handler route)\<rparr>
                     | None \<Rightarrow> \<lparr>Pattern = q, info_Methods = [], info_Handler = []\<rparr>)
             (routeOrder h @ map fst regs)"
    unfolding GetRegisteredRoutes_def by (simp add: 1)
  show ?thesis using 1 2 3 4 by blast
qed

theorem route_reregistration_witness:
  "routeOrder twice_registered = [''/_/debug/toggle'', ''/_/health'', ''/x'', ''/x'']
   \<and> count_list (routeOrder twice_registered) ''/x'' = 2
   \<and> routes twice_registered ''/x''
       = Some \<lparr>Methods = [''GET''],
               route_Handler = wrapHandler test_externals (record_handler ''second'')\<rparr>"
proof -
  let ?h = "fst (NewHandler test_externals (record_handler ''grpc'') empty_config ''secret'' empty_env)"
  have o: "routeOrder ?h = [''/_/debug/toggle'', ''/_/health'']"
    by (simp add: NewHandler_def Let_def Handler_Get_def Handler_Post_def Route_def)
  have a: "[(''/x'', record_handler ''first'', [''POST'']), (''/x'', record_handler ''second'', [])]
      = [(''/x'', record_handler ''first'', [''POST''])] @ (''/x'', record_handler ''second'', []) # []"
    by simp
  have b: "\<forall>reg \<in> set ([] :: (string \<times> handler \<times> string list) list). fst reg \<noteq> ''/x''"
    by simp
  show ?thesis
    unfolding twice_registered_def
    using route_reregistration [OF a b, of test_externals ?h] o
    by simp
qed

text \<open>
  C10. \<open>NewHandler\<close> appends a pre-request function of its own to the configured ones,
  whatever the configuration. Every route of the handler, the built-in ones and those
  registered later, holds a handler built by \<open>wrapHandler\<close>. For a request that no
  protocol handler claims, on a registered path with an allowed method, and whose
  configured pre-request functions (none, in the default configuration) return no
  error: \<open>ServeHTTP\<close> calls the route's handler with a writer whose header \<open>X-PreReq\<close> is
  \<open>valid\<close>.
\<close>

theorem default_pre_request_header:
  assumes "h = register_all X (fst (NewHandler X grpc cfg key e0)) regs"
      and "PrePhase e = PrePhase (snd (NewHandler X grpc cfg key e0))"
      and "find_protocol X (protocols h) r = None"
      and "routes h (Path r) = Some route"
      and "Method r \<in> set (Methods route)"
      and "run_PrePhase (cfg_PrePhase cfg) (ReqContext r)
             (debugResponseWriter (ResponseWriter w 200 0 False) r []) r = (rw1, c1, None)"
  shows "PrePhase (snd (NewHandler X grpc cfg key e0)) = cfg_PrePhase cfg @ [default_PreRequestFunc]
     \<and> (\<exists>H. route_Handler route = wrapHandler X H)
     \<and> (\<forall>H. route_Handler route = wrapHandler X H \<longrightarrow>
           ServeHTTP X h w r e =
             after_handler (clock e) c1 r
               (H (SetHeader rw1 ''X-PreReq'' ''valid'') (r\<lparr>ReqContext := c1\<rparr>)
                  (request_dump_logged X r e)))
     \<and> Header_Get (Header (SetHeader rw1 ''X-PreReq'' ''valid'')) ''X-PreReq'' = ''valid''"
proof -
  have p: "PrePhase e = cfg_PrePhase cfg @ [default_PreRequestFunc]"
    using assms(2) by (simp add: PrePhase_NewHandler)
  have "all_wrapped X h"
    unfolding assms(1) by (intro all_wrapped_register_all all_wrapped_NewHandler)
  then have ex: "\<exists>H. route_Handler route = wrapHandler X H"
    using assms(4) unfolding all_wrapped_def by blast
  have pre: "run_PrePhase (PrePhase e) (ReqContext r)
             (debugResponseWriter (ResponseWriter w 200 0 False) r []) r
           = (SetHeader rw1 ''X-PreReq'' ''valid'', c1, None)"
    by (simp add: p run_PrePhase_append assms(6) default_PreRequestFunc_def)
  have serve: "ServeHTTP X h w r e = route_Handler route w r e"
  proof -
    have "ServeHTTP X h w r e = inner_handler X h w r e"
      by (simp add: ServeHTTP_def assms(1))
    also have "\<dots> = route_Handler route w r e"
      using assms(3,4,5) by (rule inner_handler_route)
    finally show ?thesis .
  qed
  have "ServeHTTP X h w r e =
             after_handler (clock e) c1 r
               (H (SetHeader rw1 ''X-PreReq'' ''valid'') (r\<lparr>ReqContext := c1\<rparr>)
                  (request_dump_logged X r e))"
    if "route_Handler route = wrapHandler X H" for H
    unfolding serve that using pre by (rule wrapHandler_pre_ok)
  then show ?thesis
    using ex by (simp add: PrePhase_NewHandler)
qed

theorem default_pre_request_header_witness:
  "response_of (fst (ServeHTTP test_externals default_handler NewRecorder
       (plain_request ''GET'' ''/_/health'') default_env))
     = (200, [''X-PreReq'' \<mapsto> [''valid'']], ''OK'')
   \<and> PrePhase default_env = [default_PreRequestFunc]"
proof -
  let ?X = test_externals
  let ?r = "plain_request ''GET'' ''/_/health''"
  let ?route = "\<lparr>Methods = [''GET''], route_Handler = wrapHandler ?X (health_handler ?X)\<rparr>"
  let ?rw = "debugResponseWriter (ResponseWriter NewRecorder 200 0 False) ?r []"
  have a: "default_handler = register_all ?X
      (fst (NewHandler ?X (record_handler ''grpc'') empty_config ''secret'' empty_env)) []"
    by (simp add: default_handler_def register_all_def)
  have b: "PrePhase default_env =
      PrePhase (snd (NewHandler ?X (record_handler ''grpc'') empty_config ''secret'' empty_env))"
    by (simp add: default_env_def)
  have c: "find_protocol ?X (protocols default_handler) ?r = None"
    unfolding default_handler_def protocols_NewHandler by (rule find_protocol_plain)
  have d: "routes default_handler (Path ?r) = Some ?route"
    by (simp add: default_handler_def NewHandler_def Let_def Handler_Get_def Handler_Post_def
        routes_Route plain_request_def Method_defs)
  have e: "Method ?r \<in> set (Methods ?route)"
    by (simp add: plain_request_def)
  have f: "run_PrePhase (cfg_PrePhase empty_config) (ReqContext ?r) ?rw ?r
      = (?rw, ReqContext ?r, None)"
    by (simp add: empty_config_def)
  note t = default_pre_request_header [OF a b c d e f]
  have rh: "route_Handler ?route = wrapHandler ?X (health_handler ?X)"
    by simp
  have s: "ServeHTTP ?X default_handler NewRecorder ?r default_env =
             after_handler (clock default_env) (ReqContext ?r) ?r
               (health_handler ?X (SetHeader ?rw ''X-PreReq'' ''valid'')
                  (?r\<lparr>ReqContext := ReqContext ?r\<rparr>)
                  (request_dump_logged ?X ?r default_env))"
    using t [THEN conjunct2, THEN conjunct2, THEN conjunct1, rule_format, OF rh] .
  have v: "response_of (fst (after_handler (clock default_env) (ReqContext ?r) ?r
               (health_handler ?X (SetHeader ?rw ''X-PreReq'' ''valid'')
                  (?r\<lparr>ReqContext := ReqContext ?r\<rparr>)
                  (request_dump_logged ?X ?r default_env))))
       = (200, [''X-PreReq'' \<mapsto> [''valid'']], ''OK'')"
    by (simp add: after_handler_def health_handler_def default_env_eq empty_env_def
        request_dump_logged_def isDebugEnabled_def SetHeader_def NewRecorder_def Header_Set_def
        Log_Debug_def Let_def)
  have 1: "response_of (fst (ServeHTTP ?X default_handler NewRecorder ?r default_env))
     = (200, [''X-PreReq'' \<mapsto> [''valid'']], ''OK'')"
    unfolding s by (rule v)
  have 2: "PrePhase default_env = [default_PreRequestFunc]"
    using t [THEN conjunct1] b by (simp add: empty_config_def)
  show ?thesis using 1 2 by (rule conjI)
qed

text \<open>
  C2. Take a handler without global middleware, register the global middleware \<open>G\<close>
  with \<open>Handler.Use\<close>, the middleware \<open>A\<close> with \<open>Group.Use\<close> on a group, then \<open>B\<close> with
  \<open>Group.Use\<close> on a sub-group of it, and a route with handler \<open>H\<close> on the sub-group.
  Then \<open>ServeHTTP\<close> is \<open>G\<close> applied to the dispatching function, the sub-group's list is
  \<open>[A, B]\<close>, and the route holds \<open>wrapHandler\<close> of \<open>A (B H)\<close>: the loops wrap from the last
  element of a list to the first. So a request to the route that no protocol handler
  claims, with an allowed method and whose pre-request functions return no error, runs
  \<open>G\<close>, then \<open>A\<close>, then \<open>B\<close>, then \<open>H\<close>; with middleware and a handler that record their
  names, the recorded order is exactly \<open>g, a, b, n\<close>.
\<close>

theorem nested_group_order:
  assumes "middleware h = []"
      and "api = Group_Use (Handler_Group p1 []) [A]"
      and "v1 = Group_Use (Group_Group X api p2) [B]"
      and "h' = Group_Route X (Use h [G]) v1 pat H ms"
      and "find_protocol X (protocols h) r = None"
      and "Path r = path_Join X (path_Join X p1 p2) pat"
      and "Method r \<in> set (if ms = [] then [''GET''] else ms)"
      and "run_PrePhase (PrePhase e) (ReqContext r)
             (debugResponseWriter (ResponseWriter w 200 0 False) r []) r = (rw1, c1, None)"
  shows "ServeHTTP X h' = G (inner_handler X h')
     \<and> wrap_reverse (mws @ [m]) K = wrap_reverse mws (m K)
     \<and> group_middleware v1 = [A, B]
     \<and> routes h' (Path r) = Some \<lparr>Methods = (if ms = [] then [''GET''] else ms),
                                   route_Handler = wrapHandler X (A (B H))\<rparr>
     \<and> inner_handler X h' w r e =
         after_handler (clock e) c1 r
           (A (B H) rw1 (r\<lparr>ReqContext := c1\<rparr>) (request_dump_logged X r e))
     \<and> (G = record_middleware g \<and> A = record_middleware a \<and> B = record_middleware b
          \<and> H = record_handler n
        \<longrightarrow> order (snd (ServeHTTP X h' w r e)) = order e @ [g, a, b, n])"
proof -
  have gm: "group_middleware v1 = [A, B]"
    by (simp add: assms(2,3) Group_Use_def Group_Group_def Handler_Group_def)
  have pf: "prefix v1 = path_Join X p1 p2"
    by (simp add: assms(2,3) Group_Use_def Group_Group_def Handler_Group_def)
  have h': "h' = Route X (Use h [G]) (Path r) (A (B H)) ms"
    by (simp add: assms(4) Group_Route_def Let_def gm pf assms(6))
  have s: "ServeHTTP X h' = G (inner_handler X h')"
    by (simp add: ServeHTTP_def h' Use_def assms(1))
  have rt: "routes h' (Path r) = Some \<lparr>Methods = (if ms = [] then [''GET''] else ms),
                                   route_Handler = wrapHandler X (A (B H))\<rparr>"
    by (simp add: h' routes_Route MethodGet_def)
  have fp: "find_protocol X (protocols h') r = None"
    by (simp add: h' assms(5))
  have inner: "inner_handler X h' w r e' =
         after_handler (clock e') c1 r
           (A (B H) rw1 (r\<lparr>ReqContext := c1\<rparr>) (request_dump_logged X r e'))"
    if "PrePhase e' = PrePhase e" for e'
    using inner_handler_pre_ok [OF fp rt assms(7), of e' w rw1 c1] assms(8) that by simp
  have rec: "order (snd (ServeHTTP X h' w r e)) = order e @ [g, a, b, n]"
    if "G = record_middleware g \<and> A = record_middleware a \<and> B = record_middleware b
          \<and> H = record_handler n"
  proof -
    let ?e = "e\<lparr>order := order e @ [g]\<rparr>"
    have "ServeHTTP X h' w r e = inner_handler X h' w r ?e"
      using that by (simp add: s record_middleware_def)
    also have "\<dots> = after_handler (clock ?e) c1 r
           (A (B H) rw1 (r\<lparr>ReqContext := c1\<rparr>) (request_dump_logged X r ?e))"
      by (rule inner) simp
    finally show ?thesis
      using that by (simp add: record_middleware_def record_handler_def)
  qed
  have wr: "wrap_reverse (mws @ [m]) K = wrap_reverse mws (m K)"
    by (simp add: wrap_reverse_def)
  show ?thesis
    using s wr gm rt inner [of e] rec by simp
qed

theorem nested_group_order_witness:
  "order (snd (ServeHTTP test_externals nested_handler NewRecorder
       (plain_request ''GET'' ''/api/v1/test'') default_env))
     = [''global'', ''group'', ''nested'', ''handler'']
   \<and> Path (plain_request ''GET'' ''/api/v1/test'')
       = path_Join test_externals (path_Join test_externals ''/api'' ''/v1'') ''/test''"
proof -
  let ?X = test_externals
  let ?r = "plain_request ''GET'' ''/api/v1/test''"
  let ?rw = "debugResponseWriter (ResponseWriter NewRecorder 200 0 False) ?r []"
  have a: "middleware default_handler = []"
    by (simp add: default_handler_def)
  have c: "find_protocol ?X (protocols default_handler) ?r = None"
    unfolding default_handler_def protocols_NewHandler by (rule find_protocol_plain)
  have d: "Path ?r = path_Join ?X (path_Join ?X ''/api'' ''/v1'') ''/test''"
    by (simp add: plain_request_def test_externals_def)
  have e: "Method ?r \<in> set (if [''GET''] = [] then [''GET''] else [''GET''])"
    by (simp add: plain_request_def)
  have f: "run_PrePhase (PrePhase default_env) (ReqContext ?r) ?rw ?r
      = (SetHeader ?rw ''X-PreReq'' ''valid'', ReqContext ?r, None)"
    by (simp add: default_env_eq default_PreRequestFunc_def)
  note t = nested_group_order [OF a refl refl nested_handler_def c d e f]
  have "order (snd (ServeHTTP ?X nested_handler NewRecorder ?r default_env))
      = order default_env @ [''global'', ''group'', ''nested'', ''handler'']"
    using t [THEN conjunct2, THEN conjunct2, THEN conjunct2, THEN conjunct2, THEN conjunct2,
        rule_format, where g = "''global''" and a = "''group''" and b = "''nested''"
          and n = "''handler''"]
    by blast
  moreover have "order default_env = []"
    by (simp add: default_env_eq empty_env_def)
  ultimately show ?thesis using d by simp
qed




section \<open>The request identifier: theorems\<close>

text \<open>
  C4 (amended). For every request, \<open>RequestID\<close> calls the next handler with the
  identifier set in the request header \<open>X-ReqId\<close> and in the request context, and with
  the response writer as it received it: the middleware itself writes nothing to the
  response. The new part is the prefix, a dash and the counter of the shard chosen by
  the FNV-1a hash of the remote address modulo 64, after its increment, in decimal with
  zeros in front up to six digits. When the request already has a value in \<open>X-ReqId\<close>,
  the identifier is that value, a slash and the new part; otherwise (no header, or an
  empty value) it is the new part alone.
\<close>

theorem RequestID_chains:
  "RequestID pfx next w r e =
     (let i = shardCounter (RemoteAddr r);
          n = counters e i + 1;
          new = pfx @ ''-'' @ fmt_06d (unat n);
          existing = Header_Get (ReqHeader r) ''X-ReqId'';
          ident = (if existing = [] then new else existing @ ''/'' @ new)
      in next w (r\<lparr>ReqHeader := Header_Set (ReqHeader r) ''X-ReqId'' ident,
                   ReqContext := (ReqContext r)(''req_id'' \<mapsto> ident)\<rparr>)
              (e\<lparr>counters := (counters e)(i := n)\<rparr>))
   \<and> fst (RequestID pfx (\<lambda>w r e. (w, e)) w r e) = w
   \<and> shardCounter (RemoteAddr r) = unat (fnv64a (RemoteAddr r)) mod 64
   \<and> shardCounter (RemoteAddr r) < 64
   \<and> decimal_value (fmt_06d k) = k
   \<and> length (fmt_06d k) = (if k < 1000000 then 6 else length (decimal k))
   \<and> set (fmt_06d k) \<subseteq> set ''0123456789''"
proof -
  have 0: "fst (RequestID pfx (\<lambda>w r e. (w, e)) w r e) = w"
    by (simp add: RequestID_def nextRequestID_def Let_def)
  have 1: "RequestID pfx next w r e =
     (let i = shardCounter (RemoteAddr r);
          n = counters e i + 1;
          new = pfx @ ''-'' @ fmt_06d (unat n);
          existing = Header_Get (ReqHeader r) ''X-ReqId'';
          ident = (if existing = [] then new else existing @ ''/'' @ new)
      in next w (r\<lparr>ReqHeader := Header_Set (ReqHeader r) ''X-ReqId'' ident,
                   ReqContext := (ReqContext r)(''req_id'' \<mapsto> ident)\<rparr>)
              (e\<lparr>counters := (counters e)(i := n)\<rparr>))"
    by (simp add: RequestID_def nextRequestID_def Let_def RequestIDHeader_def RequestIDKey_def)
  have 2: "shardCounter (RemoteAddr r) = unat (fnv64a (RemoteAddr r)) mod 64"
    by (simp add: shardCounter_def unat_mod)
  have 3: "decimal_value (fmt_06d k) = k"
    by (simp add: fmt_06d_def decimal_value_zeros decimal_value_decimal)
  show ?thesis
    using 0 1 2 3 shardCounter_less length_fmt_06d set_fmt_06d by blast
qed

text \<open>
  The claim as first stated, that the response carries the chained identifier, fails: for
  a request with \<open>X-ReqId: abc\<close> and a next handler that writes nothing, the response has
  no \<open>X-ReqId\<close> header at all, while the request header and the context seen by the
  next handler hold \<open>abc/host/AbCdEfGhIj-000001\<close>.
\<close>

theorem RequestID_response_counterexample:
  "Header_Get (ReqHeader ((plain_request ''GET'' ''/x'')
        \<lparr>ReqHeader := [''X-ReqId'' \<mapsto> [''abc'']]\<rparr>)) ''X-ReqId'' = ''abc''
   \<and> response_header (fst (RequestID ''host/AbCdEfGhIj'' reqid_probe NewRecorder
        ((plain_request ''GET'' ''/x'')\<lparr>ReqHeader := [''X-ReqId'' \<mapsto> [''abc'']]\<rparr>)
        empty_env)) = Map.empty
   \<and> \<not> (Header_Get (response_header (fst (RequestID ''host/AbCdEfGhIj'' reqid_probe
        NewRecorder ((plain_request ''GET'' ''/x'')\<lparr>ReqHeader := [''X-ReqId'' \<mapsto> [''abc'']]\<rparr>)
        empty_env))) ''X-ReqId'' = ''abc/host/AbCdEfGhIj-000001'')"
  by (simp add: RequestID_def nextRequestID_def Let_def reqid_probe_def response_header_def
      NewRecorder_def Header_Get_def plain_request_def)

theorem RequestID_chains_witness:
  "order (snd (RequestID ''host/AbCdEfGhIj'' reqid_probe NewRecorder
      ((plain_request ''GET'' ''/x'')\<lparr>ReqHeader := [''X-ReqId'' \<mapsto> [''abc'']]\<rparr>) empty_env))
     = [''abc/host/AbCdEfGhIj-000001'', ''abc/host/AbCdEfGhIj-000001'']
   \<and> order (snd (RequestID ''host/AbCdEfGhIj'' reqid_probe NewRecorder
      (plain_request ''GET'' ''/x'') empty_env))
     = [''host/AbCdEfGhIj-000001'', ''host/AbCdEfGhIj-000001'']"
proof -
  have f: "fmt_06d (Suc 0) = ''000001''"
    by (simp add: fmt_06d_def decimal.simps [of "Suc 0"] numeral_eq_Suc)
  have c: "counters empty_env i + 1 = 1" for i
    by (simp add: empty_env_def)
  show ?thesis
    using RequestID_chains [of "''host/AbCdEfGhIj''" reqid_probe NewRecorder
        "(plain_request ''GET'' ''/x'')\<lparr>ReqHeader := [''X-ReqId'' \<mapsto> [''abc'']]\<rparr>" empty_env,
        THEN conjunct1]
      RequestID_chains [of "''host/AbCdEfGhIj''" reqid_probe NewRecorder
        "plain_request ''GET'' ''/x''" empty_env, THEN conjunct1]
    by (simp add: Let_def c f reqid_probe_def Header_Get_def Header_Set_def GetReqID_def
        RequestIDHeader_def RequestIDKey_def plain_request_def)
qed

end
